theory Spec2Isabelle
  imports Complex_Main "HOL-Library.AList" "HOL-Library.Word"
begin

section \<open>Python values\<close>

text \<open>
  The arguments of the public methods of \<open>LLMObs\<close> are dynamically typed: the code tests
  them with \<open>isinstance\<close> and by truthiness. They are modelled by a datatype of Python
  values. A float is represented by the real number it denotes (only its type and its
  truthiness are ever read). A dictionary is an association list in insertion order with
  string keys. \<open>PMessages\<close> and \<open>PDocuments\<close> are instances of the classes
  \<open>ddtrace.llmobs.utils.Messages\<close> and \<open>Documents\<close>, holding their normalised lists.
\<close>

datatype pyval =
    PNone
  | PBool bool
  | PInt int
  | PFloat real
  | PStr string
  | PList "pyval list"
  | PDict "(string \<times> pyval) list"
  | PMessages "pyval list"
  | PDocuments "pyval list"

text \<open>Python truthiness (\<open>bool(v)\<close>); instances of user classes are truthy.\<close>

fun truthy :: "pyval \<Rightarrow> bool" where
  "truthy PNone = False"
| "truthy (PBool b) = b"
| "truthy (PInt i) = (i \<noteq> 0)"
| "truthy (PFloat r) = (r \<noteq> 0)"
| "truthy (PStr s) = (s \<noteq> [])"
| "truthy (PList xs) = (xs \<noteq> [])"
| "truthy (PDict d) = (d \<noteq> [])"
| "truthy (PMessages ms) = True"
| "truthy (PDocuments ds) = True"

fun isinstance_dict :: "pyval \<Rightarrow> bool" where
  "isinstance_dict (PDict d) = True"
| "isinstance_dict _ = False"

fun isinstance_str :: "pyval \<Rightarrow> bool" where
  "isinstance_str (PStr s) = True"
| "isinstance_str _ = False"

text \<open>\<open>isinstance(v, int)\<close>: \<open>bool\<close> is a subclass of \<open>int\<close>.\<close>

fun isinstance_int :: "pyval \<Rightarrow> bool" where
  "isinstance_int (PInt i) = True"
| "isinstance_int (PBool b) = True"
| "isinstance_int _ = False"

text \<open>\<open>isinstance(v, (int, float))\<close>.\<close>

fun isinstance_int_float :: "pyval \<Rightarrow> bool" where
  "isinstance_int_float (PFloat r) = True"
| "isinstance_int_float v = isinstance_int v"

text \<open>The integer an \<open>int\<close> instance compares as (\<open>False\<close> is 0, \<open>True\<close> is 1).\<close>

fun int_value :: "pyval \<Rightarrow> int" where
  "int_value (PInt i) = i"
| "int_value (PBool b) = (if b then 1 else 0)"
| "int_value _ = 0"

text \<open>
  The items of a dictionary and the characters of a string. Both are applied only after
  the \<open>isinstance\<close> test of the source has succeeded; elsewhere they are empty.
\<close>

fun dict_items :: "pyval \<Rightarrow> (string \<times> pyval) list" where
  "dict_items (PDict d) = d"
| "dict_items _ = []"

fun str_value :: "pyval \<Rightarrow> string" where
  "str_value (PStr s) = s"
| "str_value _ = []"

text \<open>\<open>d.get(k)\<close> on a dictionary: the value, or \<open>None\<close> when the key is absent.\<close>

definition dict_get :: "pyval \<Rightarrow> string \<Rightarrow> pyval" where
  "dict_get d k = (case map_of (dict_items d) k of Some v \<Rightarrow> v | None \<Rightarrow> PNone)"

text \<open>
  \<open>d.update(other)\<close>: every item of \<open>other\<close>, in its order, is stored into \<open>d\<close>; a key
  already present keeps its position and takes the new value, a new key is appended.
\<close>

definition dict_update :: "(string \<times> pyval) list \<Rightarrow> (string \<times> pyval) list \<Rightarrow> (string \<times> pyval) list" where
  "dict_update d other = foldl (\<lambda>acc kv. AList.update (fst kv) (snd kv) acc) d other"

text \<open>
  \<open>str.lower()\<close> on the letters \<open>A\<close> to \<open>Z\<close>; every other character is kept. (No character
  outside ASCII lowers to a letter of the three metric type names.)
\<close>

definition lower_char :: "char \<Rightarrow> char" where
  "lower_char c =
     (let n = (of_char c :: nat) in if 65 \<le> n \<and> n \<le> 90 then char_of (n + 32) else c)"

definition lower :: "string \<Rightarrow> string" where
  "lower s = map lower_char s"

text \<open>A value of type \<open>Optional[str]\<close> as a Python value.\<close>

fun opt_str :: "string option \<Rightarrow> pyval" where
  "opt_str None = PNone"
| "opt_str (Some s) = PStr s"

section \<open>Spans and trace contexts\<close>

text \<open>
  Modelled from the spec: the constants of \<open>ddtrace.llmobs._constants\<close> are not part of
  the sources at hand. Section 3 of the specification lists the attributes this module
  keeps on a span (operation kind, model name and provider, session id, application id,
  logical parent id, and the serialised payloads); each is a tag key of its own, named as
  the constant the code uses.
\<close>

datatype tag_key =
    SPAN_KIND
  | MODEL_NAME
  | MODEL_PROVIDER
  | SESSION_ID
  | ML_APP
  | PARENT_ID_KEY
  | PROPAGATED_PARENT_ID_KEY
  | INPUT_PROMPT
  | INPUT_PARAMETERS
  | INPUT_MESSAGES
  | OUTPUT_MESSAGES
  | INPUT_DOCUMENTS
  | OUTPUT_DOCUMENTS
  | INPUT_VALUE
  | OUTPUT_VALUE
  | TAGS
  | METADATA
  | METRICS

text \<open>
  Modelled from the spec: the span and the trace context belong to the generic tracer,
  which is not part of the sources at hand. Section 3 describes the span by its name, its
  finished flag and a mapping from tag keys to values; the code also reads its type. A
  trace context has the physical trace id and span id, a side channel of baggage items
  (the ambient annotation id is a 64-bit value) and a side channel of propagated tags.
\<close>

record span =
  name :: string
  resource :: string
  span_type :: "string option"
  finished :: bool
  meta :: "tag_key \<rightharpoonup> string"

record trace_context =
  ctx_trace_id :: "nat option"
  ctx_span_id :: "nat option"
  ctx_baggage :: "string \<rightharpoonup> 64 word"
  ctx_meta :: "tag_key \<rightharpoonup> string"

text \<open>\<open>SpanTypes.LLM\<close> of \<open>ddtrace.ext\<close> and the baggage key of the ambient annotation id.\<close>

definition SpanTypes_LLM :: string where
  "SpanTypes_LLM = ''llm''"

definition ANNOTATIONS_CONTEXT_ID :: string where
  "ANNOTATIONS_CONTEXT_ID = ''annotations_context_id''"

definition get_tag :: "span \<Rightarrow> tag_key \<Rightarrow> string option" where
  "get_tag s k = meta s k"

text \<open>
  Modelled from the spec: \<open>Span.set_tag_str\<close> stores a text under a key. Its argument is
  often the result of \<open>safe_json\<close>; when that is \<open>None\<close> nothing is written (section 4.2:
  a value that cannot be serialised is skipped, nothing is raised).
\<close>

definition set_tag_str :: "span \<Rightarrow> tag_key \<Rightarrow> string option \<Rightarrow> span" where
  "set_tag_str s k v = (case v of None \<Rightarrow> s | Some x \<Rightarrow> s\<lparr>meta := (meta s)(k \<mapsto> x)\<rparr>)"

definition get_baggage_item :: "trace_context \<Rightarrow> string \<Rightarrow> 64 word option" where
  "get_baggage_item c k = ctx_baggage c k"

definition set_baggage_item :: "trace_context \<Rightarrow> string \<Rightarrow> 64 word \<Rightarrow> trace_context" where
  "set_baggage_item c k v = c\<lparr>ctx_baggage := (ctx_baggage c)(k \<mapsto> v)\<rparr>"

section \<open>Helpers imported from other modules\<close>

text \<open>
  The functions below are imported by \<open>_llmobs.py\<close> from modules that are not part of the
  sources at hand (\<open>ddtrace.llmobs._utils\<close>, \<open>ddtrace.llmobs.utils\<close>,
  \<open>ddtrace.internal.compat\<close>, \<open>json\<close>). They are parameters of the model. A result
  \<open>None\<close> of \<open>ensure_text\<close>, \<open>validate_prompt\<close>, \<open>Messages\<close> and \<open>Documents\<close> stands for the
  \<open>TypeError\<close> the callers catch; a result \<open>None\<close> of \<open>json_loads\<close> stands for the
  exception \<open>json.loads\<close> raises on malformed text; a result \<open>None\<close> of \<open>safe_json\<close>
  stands for a returned \<open>None\<close> (nothing could be serialised). The three functions on
  spans walk the ancestors of a span, which the tracer keeps.
\<close>

record helpers =
  safe_json :: "pyval \<Rightarrow> string option"
  json_loads :: "string \<Rightarrow> pyval option"
  ensure_text :: "pyval \<Rightarrow> string option"
  str_other :: "pyval \<Rightarrow> string"
  validate_prompt :: "pyval \<Rightarrow> pyval option"
  Messages :: "pyval \<Rightarrow> pyval list option"
  Documents :: "pyval \<Rightarrow> pyval list option"
  get_session_id :: "span \<Rightarrow> string option"
  get_ml_app :: "span \<Rightarrow> string option"
  get_llmobs_parent_id :: "span \<Rightarrow> string option"

text \<open>\<open>str(v)\<close> and \<open>"{}".format(v)\<close>: the identity on strings, \<open>str_other\<close> elsewhere.\<close>

definition py_str :: "helpers \<Rightarrow> pyval \<Rightarrow> string" where
  "py_str h v = (case v of PStr s \<Rightarrow> s | _ \<Rightarrow> str_other h v)"

section \<open>Logging and errors\<close>

text \<open>Every call of \<open>log.warning\<close> and \<open>log.debug\<close> in the modelled functions, by call site.\<close>

datatype log_msg =
    W_submit_not_enabled
  | W_api_key_required
  | W_span_context_not_dict
  | W_ml_app_required
  | W_timestamp_invalid
  | W_ids_missing
  | W_label_missing
  | W_metric_type_invalid
  | W_numerical_unsupported
  | W_value_not_string
  | W_value_not_numeric
  | W_tags_not_dict
  | W_tags_not_strings
  | W_metadata_not_dict
  | W_no_span
  | W_not_llmobs_span
  | W_finished_span
  | W_parameters_deprecated
  | W_parameters_not_dict
  | W_prompt_invalid
  | W_input_messages
  | W_output_messages
  | W_input_documents
  | W_output_documents
  | W_span_tags_not_dict
  | W_span_tags_parse
  | W_metadata_tag_not_dict
  | W_metrics_not_dict
  | W_span_start_while_disabled
  | W_activate_not_enabled
  | W_extract_ids_failed
  | W_extract_parent_id_failed
  | D_span_kind_not_specified
  | D_failed_pop_annotation

text \<open>Exceptions that leave a modelled function.\<close>

datatype error = AttributeError | JSONDecodeError

section \<open>Evaluation submission\<close>

text \<open>
  The process configuration read by \<open>submit_evaluation\<close>: the class attribute
  \<open>LLMObs.enabled\<close>, \<open>config._dd_api_key\<close>, \<open>config._llmobs_ml_app\<close>,
  \<open>ddtrace.__version__\<close>, and the value of \<open>int(time.time() * 1000)\<close> at the call.
\<close>

record env =
  enabled :: bool
  dd_api_key :: "string option"
  llmobs_ml_app :: "string option"
  ddtrace_version :: string
  now_ms :: int

record eval_args =
  span_context :: pyval
  label :: pyval
  metric_type :: pyval
  val :: pyval
  tags :: pyval
  ml_app :: pyval
  timestamp_ms :: pyval
  metadata :: pyval

text \<open>
  Lines 853 to 858: the loop over the caller's tags. A pair whose key or value
  \<open>ensure_text\<close> refuses is skipped with a warning.
\<close>

fun evaluation_tags_loop ::
  "helpers \<Rightarrow> (string \<times> pyval) list \<Rightarrow> (string \<times> pyval) list \<times> log_msg list
     \<Rightarrow> (string \<times> pyval) list \<times> log_msg list" where
  "evaluation_tags_loop h [] acc = acc"
| "evaluation_tags_loop h ((k, v) # items) (evaluation_tags, lg) =
     (case (ensure_text h (PStr k), ensure_text h v) of
        (Some k', Some v') \<Rightarrow>
          evaluation_tags_loop h items (AList.update k' (PStr v') evaluation_tags, lg)
      | _ \<Rightarrow> evaluation_tags_loop h items (evaluation_tags, lg @ [W_tags_not_strings]))"

text \<open>
  Lines 847 to 858: the default tags, overridden by the caller's tags (a dictionary or
  \<open>None\<close> at this point).
\<close>

definition collect_evaluation_tags ::
  "helpers \<Rightarrow> env \<Rightarrow> pyval \<Rightarrow> pyval \<Rightarrow> log_msg list \<Rightarrow> (string \<times> pyval) list \<times> log_msg list" where
  "collect_evaluation_tags h e tags' ml_app' lg =
     (let evaluation_tags = [(''ddtrace.version'', PStr (ddtrace_version e)), (''ml_app'', ml_app')]
      in if truthy tags' then evaluation_tags_loop h (dict_items tags') (evaluation_tags, lg)
         else (evaluation_tags, lg))"

text \<open>Lines 860 to 869: the record, a dictionary.\<close>

definition evaluation_metric ::
  "helpers \<Rightarrow> eval_args \<Rightarrow> pyval \<Rightarrow> pyval \<Rightarrow> pyval \<Rightarrow> pyval \<Rightarrow> string
     \<Rightarrow> (string \<times> pyval) list \<Rightarrow> (string \<times> pyval) list" where
  "evaluation_metric h a ml_app' timestamp_ms' span_id trace_id metric_type' evaluation_tags =
     [(''span_id'', span_id),
      (''trace_id'', trace_id),
      (''label'', PStr (py_str h (label a))),
      (''metric_type'', PStr (lower metric_type')),
      (''timestamp_ms'', timestamp_ms'),
      (metric_type' @ ''_value'', val a),
      (''ml_app'', ml_app'),
      (''tags'', PList (map (\<lambda>kv. PStr (fst kv @ '':'' @ py_str h (snd kv))) evaluation_tags))]"

text \<open>
  Lines 871 to 879: the metadata, when given and serialisable, is added, and the record
  is enqueued. \<open>json.loads\<close> on the serialised metadata is not guarded.
\<close>

definition add_metadata_and_enqueue ::
  "helpers \<Rightarrow> pyval \<Rightarrow> (string \<times> pyval) list \<Rightarrow> log_msg list
     \<Rightarrow> error + (log_msg list \<times> pyval option)" where
  "add_metadata_and_enqueue h metadata' em lg =
     (if truthy metadata'
      then (if \<not> isinstance_dict metadata'
            then Inr (lg @ [W_metadata_not_dict], Some (PDict em))
            else (case safe_json h metadata' of
                    None \<Rightarrow> Inr (lg, Some (PDict em))
                  | Some s \<Rightarrow>
                      if s = [] then Inr (lg, Some (PDict em))
                      else (case json_loads h s of
                              None \<Rightarrow> Inl JSONDecodeError
                            | Some m \<Rightarrow> Inr (lg, Some (PDict (AList.update ''metadata'' m em))))))
      else Inr (lg, Some (PDict em)))"

text \<open>Lines 847 to 879 together.\<close>

definition build_and_enqueue ::
  "helpers \<Rightarrow> env \<Rightarrow> eval_args \<Rightarrow> pyval \<Rightarrow> pyval \<Rightarrow> pyval \<Rightarrow> pyval \<Rightarrow> string \<Rightarrow> log_msg list
     \<Rightarrow> error + (log_msg list \<times> pyval option)" where
  "build_and_enqueue h e a ml_app' timestamp_ms' span_id trace_id metric_type' lg =
     (let (evaluation_tags, lg1) = collect_evaluation_tags h e (tags a) ml_app' lg
      in add_metadata_and_enqueue h (metadata a)
           (evaluation_metric h a ml_app' timestamp_ms' span_id trace_id metric_type' evaluation_tags)
           lg1)"

text \<open>
  Lines 829 to 845, for the lowered metric type: the deprecated name is replaced, then
  the value and the tags are checked.
\<close>

definition check_value_and_tags ::
  "helpers \<Rightarrow> env \<Rightarrow> eval_args \<Rightarrow> pyval \<Rightarrow> pyval \<Rightarrow> pyval \<Rightarrow> pyval \<Rightarrow> string
     \<Rightarrow> error + (log_msg list \<times> pyval option)" where
  "check_value_and_tags h e a ml_app' timestamp_ms' span_id trace_id metric_type0 =
     (let (metric_type', lg) =
            (if metric_type0 = ''numerical'' then (''score'', [W_numerical_unsupported])
             else (metric_type0, []))
      in if metric_type' = ''categorical'' \<and> \<not> isinstance_str (val a)
         then Inr (lg @ [W_value_not_string], None)
         else if metric_type' = ''score'' \<and> \<not> isinstance_int_float (val a)
         then Inr (lg @ [W_value_not_numeric], None)
         else if tags a \<noteq> PNone \<and> \<not> isinstance_dict (tags a)
         then Inr (lg @ [W_tags_not_dict], None)
         else build_and_enqueue h e a ml_app' timestamp_ms' span_id trace_id metric_type' lg)"

text \<open>
  \<open>LLMObs.submit_evaluation\<close>, lines 784 to 879: a chain of checks, each of which logs a
  warning and returns. The result is the list of messages logged, in order, and the
  record enqueued on the evaluation metric writer (\<open>None\<close> when nothing is enqueued), or
  the exception that leaves the method: \<open>metric_type.lower()\<close> raises \<open>AttributeError\<close>
  on a truthy value that is not a string.
\<close>

definition submit_evaluation ::
  "helpers \<Rightarrow> env \<Rightarrow> eval_args \<Rightarrow> error + (log_msg list \<times> pyval option)" where
  "submit_evaluation h e a =
     (if \<not> enabled e then Inr ([W_submit_not_enabled], None)
      else if \<not> truthy (opt_str (dd_api_key e)) then Inr ([W_api_key_required], None)
      else if \<not> isinstance_dict (span_context a) then Inr ([W_span_context_not_dict], None)
      else
       (let ml_app' = (if truthy (ml_app a) then ml_app a else opt_str (llmobs_ml_app e))
        in if \<not> truthy ml_app' then Inr ([W_ml_app_required], None)
           else
            (let timestamp_ms' =
                   (if truthy (timestamp_ms a) then timestamp_ms a else PInt (now_ms e))
             in if \<not> isinstance_int timestamp_ms' \<or> int_value timestamp_ms' < 0
                then Inr ([W_timestamp_invalid], None)
                else
                 (let span_id = dict_get (span_context a) ''span_id'';
                      trace_id = dict_get (span_context a) ''trace_id''
                  in if \<not> (truthy span_id \<and> truthy trace_id) then Inr ([W_ids_missing], None)
                     else if \<not> truthy (label a) then Inr ([W_label_missing], None)
                     else if \<not> truthy (metric_type a) then Inr ([W_metric_type_invalid], None)
                     else if \<not> isinstance_str (metric_type a) then Inl AttributeError
                     else if lower (str_value (metric_type a))
                               \<notin> set [''categorical'', ''numerical'', ''score'']
                     then Inr ([W_metric_type_invalid], None)
                     else check_value_and_tags h e a ml_app' timestamp_ms' span_id trace_id
                            (lower (str_value (metric_type a)))))))"

subsection \<open>The checks of \<open>submit_evaluation\<close>, one by one\<close>

text \<open>The application id and the timestamp after the defaults have been substituted.\<close>

definition resolved_ml_app :: "env \<Rightarrow> eval_args \<Rightarrow> pyval" where
  "resolved_ml_app e a = (if truthy (ml_app a) then ml_app a else opt_str (llmobs_ml_app e))"

definition resolved_timestamp :: "env \<Rightarrow> eval_args \<Rightarrow> pyval" where
  "resolved_timestamp e a = (if truthy (timestamp_ms a) then timestamp_ms a else PInt (now_ms e))"

definition ids_present :: "pyval \<Rightarrow> bool" where
  "ids_present sc = (truthy (dict_get sc ''span_id'') \<and> truthy (dict_get sc ''trace_id''))"

text \<open>The metric kind a metric type stands for: the deprecated alias stands for the score.\<close>

definition metric_kind :: "pyval \<Rightarrow> string option" where
  "metric_kind m =
     (if \<not> isinstance_str m then None
      else if lower (str_value m) = ''numerical'' then Some ''score''
      else if lower (str_value m) = ''categorical'' \<or> lower (str_value m) = ''score''
      then Some (lower (str_value m))
      else None)"

text \<open>
  The checks in the order in which the code makes them, each with the warning logged
  when it fails.
\<close>

definition code_checks :: "env \<Rightarrow> eval_args \<Rightarrow> (log_msg \<times> bool) list" where
  "code_checks e a =
     [(W_submit_not_enabled, enabled e),
      (W_api_key_required, truthy (opt_str (dd_api_key e))),
      (W_span_context_not_dict, isinstance_dict (span_context a)),
      (W_ml_app_required, truthy (resolved_ml_app e a)),
      (W_timestamp_invalid,
         isinstance_int (resolved_timestamp e a) \<and> 0 \<le> int_value (resolved_timestamp e a)),
      (W_ids_missing, ids_present (span_context a)),
      (W_label_missing, truthy (label a)),
      (W_metric_type_invalid, metric_kind (metric_type a) \<noteq> None),
      (W_value_not_string,
         \<not> (metric_kind (metric_type a) = Some ''categorical'' \<and> \<not> isinstance_str (val a))),
      (W_value_not_numeric,
         \<not> (metric_kind (metric_type a) = Some ''score'' \<and> \<not> isinstance_int_float (val a))),
      (W_tags_not_dict, \<not> (tags a \<noteq> PNone \<and> \<not> isinstance_dict (tags a)))]"

definition str_or_falsy :: "pyval \<Rightarrow> bool" where
  "str_or_falsy v = (\<not> truthy v \<or> isinstance_str v)"

text \<open>
  The validation order as the specification words it: eight steps, the third of which
  asks at once for a mapping and for both identifiers.
\<close>

datatype spec_step =
    Step_enabled
  | Step_credential
  | Step_span_ref
  | Step_app_id
  | Step_timestamp
  | Step_label
  | Step_metric_kind
  | Step_value_type

definition spec_checks :: "env \<Rightarrow> eval_args \<Rightarrow> (spec_step \<times> bool) list" where
  "spec_checks e a =
     [(Step_enabled, enabled e),
      (Step_credential, truthy (opt_str (dd_api_key e))),
      (Step_span_ref, isinstance_dict (span_context a) \<and> ids_present (span_context a)),
      (Step_app_id, truthy (resolved_ml_app e a)),
      (Step_timestamp,
         isinstance_int (resolved_timestamp e a) \<and> 0 \<le> int_value (resolved_timestamp e a)),
      (Step_label, truthy (label a)),
      (Step_metric_kind, metric_kind (metric_type a) \<noteq> None),
      (Step_value_type,
         (metric_kind (metric_type a) = Some ''categorical'' \<and> isinstance_str (val a))
         \<or> (metric_kind (metric_type a) = Some ''score'' \<and> isinstance_int_float (val a)))]"

definition spec_first_failure :: "env \<Rightarrow> eval_args \<Rightarrow> spec_step option" where
  "spec_first_failure e a = map_option fst (find (\<lambda>p. \<not> snd p) (spec_checks e a))"

text \<open>The step of the specification a warning of the code reports.\<close>

fun step_of :: "log_msg \<Rightarrow> spec_step option" where
  "step_of W_submit_not_enabled = Some Step_enabled"
| "step_of W_api_key_required = Some Step_credential"
| "step_of W_span_context_not_dict = Some Step_span_ref"
| "step_of W_ids_missing = Some Step_span_ref"
| "step_of W_ml_app_required = Some Step_app_id"
| "step_of W_timestamp_invalid = Some Step_timestamp"
| "step_of W_label_missing = Some Step_label"
| "step_of W_metric_type_invalid = Some Step_metric_kind"
| "step_of W_value_not_string = Some Step_value_type"
| "step_of W_value_not_numeric = Some Step_value_type"
| "step_of _ = None"

text \<open>The step a call reports as failed: that of its last warning, when nothing is enqueued.\<close>

definition reported_step :: "error + (log_msg list \<times> pyval option) \<Rightarrow> spec_step option" where
  "reported_step r =
     (case r of
        Inr (lg, None) \<Rightarrow> (if lg = [] then None else step_of (last lg))
      | _ \<Rightarrow> None)"

section \<open>The span factory\<close>

text \<open>
  The tracer as this module uses it: \<open>tracer.trace(name, resource, span_type)\<close> creates
  and returns a span, \<open>current_span()\<close> and \<open>current_trace_context()\<close> read the active
  span and context. The tracer is not part of the sources at hand; it is a parameter.
\<close>

record tracer =
  trace :: "string \<Rightarrow> string \<Rightarrow> string \<Rightarrow> span"
  current_span :: "span option"
  current_trace_context :: "trace_context option"

text \<open>
  \<open>LLMObs._start_span\<close>, lines 379 to 391: the session id, the application id and the
  logical parent id are resolved and stored.
\<close>

definition start_span_links ::
  "helpers \<Rightarrow> span \<Rightarrow> string option \<Rightarrow> string option \<Rightarrow> span" where
  "start_span_links h span3 session_id' ml_app' =
     (let session_id'' = (if session_id' \<noteq> None then session_id' else get_session_id h span3);
          span4 = (if session_id'' \<noteq> None then set_tag_str span3 SESSION_ID session_id''
                   else span3);
          ml_app'' = (if ml_app' = None then get_ml_app h span4 else ml_app');
          span5 = set_tag_str span4 ML_APP ml_app''
      in if get_tag span5 PROPAGATED_PARENT_ID_KEY = None
         then (let parent_id = (case get_llmobs_parent_id h span5 of
                                  None \<Rightarrow> ''undefined''
                                | Some p \<Rightarrow> if p \<noteq> [] then p else ''undefined'')
               in set_tag_str span5 PARENT_ID_KEY (Some parent_id))
         else span5)"

text \<open>\<open>LLMObs._start_span\<close>, lines 371 to 391.\<close>

definition start_span ::
  "helpers \<Rightarrow> tracer \<Rightarrow> string \<Rightarrow> string option \<Rightarrow> string option \<Rightarrow> string option
     \<Rightarrow> string option \<Rightarrow> string option \<Rightarrow> span" where
  "start_span h t operation_kind name' session_id' model_name model_provider ml_app' =
     (let name'' = (case name' of None \<Rightarrow> operation_kind | Some n \<Rightarrow> n);
          span0 = trace t name'' operation_kind SpanTypes_LLM;
          span1 = set_tag_str span0 SPAN_KIND (Some operation_kind);
          span2 = (if model_name \<noteq> None then set_tag_str span1 MODEL_NAME model_name else span1);
          span3 = (if model_provider \<noteq> None then set_tag_str span2 MODEL_PROVIDER model_provider
                   else span2)
      in start_span_links h span3 session_id' ml_app')"

text \<open>
  The public constructors, lines 393 to 545. Each logs a warning when the service is
  not enabled and starts the span all the same.
\<close>

definition llm ::
  "helpers \<Rightarrow> tracer \<Rightarrow> env \<Rightarrow> string option \<Rightarrow> string option \<Rightarrow> string option
     \<Rightarrow> string option \<Rightarrow> string option \<Rightarrow> log_msg list \<times> span" where
  "llm h t e model_name name' model_provider session_id' ml_app' =
     (let lg = (if \<not> enabled e then [W_span_start_while_disabled] else []);
          model_name' = (if model_name = None then Some ''custom'' else model_name);
          model_provider' = (if model_provider = None then Some ''custom'' else model_provider)
      in (lg, start_span h t ''llm'' name' session_id' model_name' model_provider' ml_app'))"

definition embedding ::
  "helpers \<Rightarrow> tracer \<Rightarrow> env \<Rightarrow> string option \<Rightarrow> string option \<Rightarrow> string option
     \<Rightarrow> string option \<Rightarrow> string option \<Rightarrow> log_msg list \<times> span" where
  "embedding h t e model_name name' model_provider session_id' ml_app' =
     (let lg = (if \<not> enabled e then [W_span_start_while_disabled] else []);
          model_name' = (if model_name = None then Some ''custom'' else model_name);
          model_provider' = (if model_provider = None then Some ''custom'' else model_provider)
      in (lg, start_span h t ''embedding'' name' session_id' model_name' model_provider' ml_app'))"

definition tool ::
  "helpers \<Rightarrow> tracer \<Rightarrow> env \<Rightarrow> string option \<Rightarrow> string option \<Rightarrow> string option
     \<Rightarrow> log_msg list \<times> span" where
  "tool h t e name' session_id' ml_app' =
     ((if \<not> enabled e then [W_span_start_while_disabled] else []),
      start_span h t ''tool'' name' session_id' None None ml_app')"

definition task ::
  "helpers \<Rightarrow> tracer \<Rightarrow> env \<Rightarrow> string option \<Rightarrow> string option \<Rightarrow> string option
     \<Rightarrow> log_msg list \<times> span" where
  "task h t e name' session_id' ml_app' =
     ((if \<not> enabled e then [W_span_start_while_disabled] else []),
      start_span h t ''task'' name' session_id' None None ml_app')"

definition agent ::
  "helpers \<Rightarrow> tracer \<Rightarrow> env \<Rightarrow> string option \<Rightarrow> string option \<Rightarrow> string option
     \<Rightarrow> log_msg list \<times> span" where
  "agent h t e name' session_id' ml_app' =
     ((if \<not> enabled e then [W_span_start_while_disabled] else []),
      start_span h t ''agent'' name' session_id' None None ml_app')"

definition workflow ::
  "helpers \<Rightarrow> tracer \<Rightarrow> env \<Rightarrow> string option \<Rightarrow> string option \<Rightarrow> string option
     \<Rightarrow> log_msg list \<times> span" where
  "workflow h t e name' session_id' ml_app' =
     ((if \<not> enabled e then [W_span_start_while_disabled] else []),
      start_span h t ''workflow'' name' session_id' None None ml_app')"

definition retrieval ::
  "helpers \<Rightarrow> tracer \<Rightarrow> env \<Rightarrow> string option \<Rightarrow> string option \<Rightarrow> string option
     \<Rightarrow> log_msg list \<times> span" where
  "retrieval h t e name' session_id' ml_app' =
     ((if \<not> enabled e then [W_span_start_while_disabled] else []),
      start_span h t ''retrieval'' name' session_id' None None ml_app')"

section \<open>Annotation\<close>

text \<open>
  Every tagging function takes the span and returns the messages it logs and the span
  as it leaves it.
\<close>

text \<open>\<open>_tag_prompt\<close>, lines 630 to 637.\<close>

definition tag_prompt :: "helpers \<Rightarrow> span \<Rightarrow> pyval \<Rightarrow> log_msg list \<times> span" where
  "tag_prompt h s prompt' =
     (case validate_prompt h prompt' of
        None \<Rightarrow> ([W_prompt_invalid], s)
      | Some validated_prompt \<Rightarrow> ([], set_tag_str s INPUT_PROMPT (safe_json h validated_prompt)))"

text \<open>\<open>_tag_params\<close>, lines 640 to 647.\<close>

definition tag_params :: "helpers \<Rightarrow> span \<Rightarrow> pyval \<Rightarrow> log_msg list \<times> span" where
  "tag_params h s params =
     (if \<not> isinstance_dict params then ([W_parameters_not_dict], s)
      else ([], set_tag_str s INPUT_PARAMETERS (safe_json h params)))"

text \<open>
  \<open>Messages(v).messages\<close> and \<open>Documents(v).documents\<close>, unless \<open>v\<close> is an instance
  already.
\<close>

definition as_messages :: "helpers \<Rightarrow> pyval \<Rightarrow> pyval list option" where
  "as_messages h v = (case v of PMessages ms \<Rightarrow> Some ms | _ \<Rightarrow> Messages h v)"

definition as_documents :: "helpers \<Rightarrow> pyval \<Rightarrow> pyval list option" where
  "as_documents h v = (case v of PDocuments ds \<Rightarrow> Some ds | _ \<Rightarrow> Documents h v)"

text \<open>\<open>_tag_llm_io\<close>, lines 650 to 671.\<close>

definition tag_llm_io :: "helpers \<Rightarrow> span \<Rightarrow> pyval \<Rightarrow> pyval \<Rightarrow> log_msg list \<times> span" where
  "tag_llm_io h s input_messages output_messages =
     (let (lg1, s1) =
            (if input_messages \<noteq> PNone
             then (case as_messages h input_messages of
                     None \<Rightarrow> ([W_input_messages], s)
                   | Some ms \<Rightarrow>
                       if ms \<noteq> [] then ([], set_tag_str s INPUT_MESSAGES (safe_json h (PList ms)))
                       else ([], s))
             else ([], s))
      in if output_messages = PNone then (lg1, s1)
         else (case as_messages h output_messages of
                 None \<Rightarrow> (lg1 @ [W_output_messages], s1)
               | Some ms \<Rightarrow>
                   if ms = [] then (lg1, s1)
                   else (lg1, set_tag_str s1 OUTPUT_MESSAGES (safe_json h (PList ms)))))"

text \<open>\<open>_tag_embedding_io\<close>, lines 674 to 688.\<close>

definition tag_embedding_io :: "helpers \<Rightarrow> span \<Rightarrow> pyval \<Rightarrow> pyval \<Rightarrow> log_msg list \<times> span" where
  "tag_embedding_io h s input_documents output_text =
     (let (lg1, s1) =
            (if input_documents \<noteq> PNone
             then (case as_documents h input_documents of
                     None \<Rightarrow> ([W_input_documents], s)
                   | Some ds \<Rightarrow>
                       if ds \<noteq> [] then ([], set_tag_str s INPUT_DOCUMENTS (safe_json h (PList ds)))
                       else ([], s))
             else ([], s))
      in if output_text = PNone then (lg1, s1)
         else (lg1, set_tag_str s1 OUTPUT_VALUE (safe_json h output_text)))"

text \<open>\<open>_tag_retrieval_io\<close>, lines 691 to 706.\<close>

definition tag_retrieval_io :: "helpers \<Rightarrow> span \<Rightarrow> pyval \<Rightarrow> pyval \<Rightarrow> log_msg list \<times> span" where
  "tag_retrieval_io h s input_text output_documents =
     (let s1 = (if input_text \<noteq> PNone then set_tag_str s INPUT_VALUE (safe_json h input_text)
                else s)
      in if output_documents = PNone then ([], s1)
         else (case as_documents h output_documents of
                 None \<Rightarrow> ([W_output_documents], s1)
               | Some ds \<Rightarrow>
                   if ds = [] then ([], s1)
                   else ([], set_tag_str s1 OUTPUT_DOCUMENTS (safe_json h (PList ds)))))"

text \<open>\<open>_tag_text_io\<close>, lines 709 to 716.\<close>

definition tag_text_io :: "helpers \<Rightarrow> span \<Rightarrow> pyval \<Rightarrow> pyval \<Rightarrow> log_msg list \<times> span" where
  "tag_text_io h s input_value output_value =
     (let s1 = (if input_value \<noteq> PNone then set_tag_str s INPUT_VALUE (safe_json h input_value)
                else s)
      in ([], if output_value \<noteq> PNone then set_tag_str s1 OUTPUT_VALUE (safe_json h output_value)
              else s1))"

text \<open>
  \<open>_tag_span_tags\<close>, lines 719 to 736. Inside the \<open>try\<close>, \<open>json.loads\<close> may raise on the
  stored text, and \<open>update\<close> raises when the value read back is not a dictionary; both are
  caught and logged.
\<close>

definition tag_span_tags :: "helpers \<Rightarrow> span \<Rightarrow> pyval \<Rightarrow> log_msg list \<times> span" where
  "tag_span_tags h s span_tags =
     (if \<not> truthy span_tags then ([], s)
      else if \<not> isinstance_dict span_tags then ([W_span_tags_not_dict], s)
      else (case get_tag s TAGS of
              None \<Rightarrow> ([], set_tag_str s TAGS (safe_json h span_tags))
            | Some current_tags_str \<Rightarrow>
                if current_tags_str = [] then ([], set_tag_str s TAGS (safe_json h span_tags))
                else (case json_loads h current_tags_str of
                        Some (PDict current_tags) \<Rightarrow>
                          ([], set_tag_str s TAGS
                                 (safe_json h (PDict (dict_update current_tags (dict_items span_tags)))))
                      | _ \<Rightarrow> ([W_span_tags_parse], s))))"

text \<open>\<open>_tag_metadata\<close>, lines 739 to 746, and \<open>_tag_metrics\<close>, lines 749 to 756.\<close>

definition tag_metadata :: "helpers \<Rightarrow> span \<Rightarrow> pyval \<Rightarrow> log_msg list \<times> span" where
  "tag_metadata h s metadata' =
     (if \<not> truthy metadata' then ([], s)
      else if \<not> isinstance_dict metadata' then ([W_metadata_tag_not_dict], s)
      else ([], set_tag_str s METADATA (safe_json h metadata')))"

definition tag_metrics :: "helpers \<Rightarrow> span \<Rightarrow> pyval \<Rightarrow> log_msg list \<times> span" where
  "tag_metrics h s metrics =
     (if \<not> truthy metrics then ([], s)
      else if \<not> isinstance_dict metrics then ([W_metrics_not_dict], s)
      else ([], set_tag_str s METRICS (safe_json h metrics)))"

text \<open>
  The arguments of \<open>annotate\<close> other than the span: \<open>parameters\<close>, \<open>prompt\<close>,
  \<open>input_data\<close>, \<open>output_data\<close>, \<open>metadata\<close>, \<open>metrics\<close>, \<open>tags\<close> and \<open>_name\<close>.
\<close>

record annotation =
  ann_parameters :: pyval
  ann_prompt :: pyval
  ann_input_data :: pyval
  ann_output_data :: pyval
  ann_metadata :: pyval
  ann_metrics :: pyval
  ann_tags :: pyval
  ann_name :: "string option"

text \<open>\<open>LLMObs.annotate\<close>, lines 602 to 627: the span is an unfinished span of this module.\<close>

definition annotate_span :: "helpers \<Rightarrow> span \<Rightarrow> annotation \<Rightarrow> log_msg list \<times> span" where
  "annotate_span h s a =
     (let (lg1, s1) = (if ann_metadata a \<noteq> PNone then tag_metadata h s (ann_metadata a) else ([], s));
          (lg2, s2) = (if ann_metrics a \<noteq> PNone then tag_metrics h s1 (ann_metrics a) else ([], s1));
          (lg3, s3) = (if ann_tags a \<noteq> PNone then tag_span_tags h s2 (ann_tags a) else ([], s2));
          span_kind = get_tag s3 SPAN_KIND;
          (lg4, s4) = (if ann_parameters a \<noteq> PNone
                       then (let (lg, s') = tag_params h s3 (ann_parameters a)
                             in (W_parameters_deprecated # lg, s'))
                       else ([], s3));
          s5 = (case ann_name a of None \<Rightarrow> s4 | Some n \<Rightarrow> s4\<lparr>name := n\<rparr>);
          (lg6, s6) = (if ann_prompt a \<noteq> PNone then tag_prompt h s5 (ann_prompt a) else ([], s5));
          lg = lg1 @ lg2 @ lg3 @ lg4 @ lg6
      in if span_kind = None \<or> span_kind = Some [] then (lg @ [D_span_kind_not_specified], s6)
         else if ann_input_data a \<noteq> PNone \<or> ann_output_data a \<noteq> PNone
         then (let (lg7, s7) =
                     (if span_kind = Some ''llm''
                      then tag_llm_io h s6 (ann_input_data a) (ann_output_data a)
                      else if span_kind = Some ''embedding''
                      then tag_embedding_io h s6 (ann_input_data a) (ann_output_data a)
                      else if span_kind = Some ''retrieval''
                      then tag_retrieval_io h s6 (ann_input_data a) (ann_output_data a)
                      else tag_text_io h s6 (ann_input_data a) (ann_output_data a))
               in (lg @ lg7, s7))
         else (lg, s6))"

text \<open>
  \<open>LLMObs.annotate\<close>, lines 591 to 627. The result is the messages logged and the span
  the call was about, as the call leaves it (\<open>None\<close> when there is no span at all).
\<close>

definition annotate ::
  "helpers \<Rightarrow> tracer \<Rightarrow> span option \<Rightarrow> annotation \<Rightarrow> log_msg list \<times> span option" where
  "annotate h t span' a =
     (case (case span' of None \<Rightarrow> current_span t | Some s \<Rightarrow> Some s) of
        None \<Rightarrow> ([W_no_span], None)
      | Some s \<Rightarrow>
          if span_type s \<noteq> Some SpanTypes_LLM then ([W_not_llmobs_span], Some s)
          else if finished s then ([W_finished_span], Some s)
          else (let (lg, s') = annotate_span h s a in (lg, Some s')))"

section \<open>The annotation context registry\<close>

text \<open>
  An entry of \<open>_annotations\<close>: the annotation id, the ambient context id and the keyword
  arguments \<open>tags\<close>, \<open>prompt\<close> and \<open>_name\<close> handed to \<open>annotate\<close>.
\<close>

type_synonym annotation_entry = "64 word \<times> 64 word \<times> (pyval \<times> pyval \<times> string option)"

text \<open>What a call does besides returning: it takes and releases the lock, and it logs.\<close>

datatype event = Acquire | Release | Log log_msg

text \<open>The call \<open>annotate(span, **annotation_kwargs)\<close> of line 119.\<close>

definition annotation_kwargs :: "pyval \<times> pyval \<times> string option \<Rightarrow> annotation" where
  "annotation_kwargs kw =
     \<lparr>ann_parameters = PNone, ann_prompt = fst (snd kw), ann_input_data = PNone,
      ann_output_data = PNone, ann_metadata = PNone, ann_metrics = PNone,
      ann_tags = fst kw, ann_name = snd (snd kw)\<rparr>"

text \<open>The loop of lines 117 to 119; the span is the same object throughout.\<close>

fun do_annotations_loop ::
  "helpers \<Rightarrow> tracer \<Rightarrow> 64 word option \<Rightarrow> annotation_entry list \<Rightarrow> log_msg list \<times> span
     \<Rightarrow> log_msg list \<times> span" where
  "do_annotations_loop h t current_context_id [] acc = acc"
| "do_annotations_loop h t current_context_id ((annotation_id, context_id, kw) # rest) (lg, s) =
     (if current_context_id = Some context_id
      then (case annotate h t (Some s) (annotation_kwargs kw) of
              (lg', Some s') \<Rightarrow> do_annotations_loop h t current_context_id rest (lg @ lg', s')
            | (lg', None) \<Rightarrow> do_annotations_loop h t current_context_id rest (lg @ lg', s))
      else do_annotations_loop h t current_context_id rest (lg, s))"

text \<open>
  \<open>LLMObs._do_annotations\<close>, lines 109 to 119, the span-start hook.
  \<open>current_trace_context()\<close> may be \<open>None\<close>, on which \<open>get_baggage_item\<close> raises.
\<close>

definition do_annotations ::
  "helpers \<Rightarrow> tracer \<Rightarrow> annotation_entry list \<Rightarrow> span \<Rightarrow> error + (event list \<times> span)" where
  "do_annotations h t annotations s =
     (if span_type s \<noteq> Some SpanTypes_LLM then Inr ([], s)
      else (case current_trace_context t of
              None \<Rightarrow> Inl AttributeError
            | Some current_context \<Rightarrow>
                (let current_context_id = get_baggage_item current_context ANNOTATIONS_CONTEXT_ID;
                     (lg, s') = do_annotations_loop h t current_context_id annotations ([], s)
                 in Inr ([Acquire] @ map Log lg @ [Release], s'))))"

text \<open>
  The hook as the specification words it: every entry whose ambient id equals the active
  one is applied, in registration order, each by a call of \<open>annotate\<close> on the span as the
  entries before it left it.
\<close>

definition apply_annotation ::
  "helpers \<Rightarrow> tracer \<Rightarrow> log_msg list \<times> span \<Rightarrow> annotation_entry \<Rightarrow> log_msg list \<times> span" where
  "apply_annotation h t acc entry =
     (case annotate h t (Some (snd acc)) (annotation_kwargs (snd (snd entry))) of
        (lg', Some s') \<Rightarrow> (fst acc @ lg', s')
      | (lg', None) \<Rightarrow> (fst acc @ lg', snd acc))"

definition apply_matching ::
  "helpers \<Rightarrow> tracer \<Rightarrow> 64 word option \<Rightarrow> annotation_entry list \<Rightarrow> log_msg list \<times> span
     \<Rightarrow> log_msg list \<times> span" where
  "apply_matching h t current_context_id annotations acc =
     foldl (apply_annotation h t) acc
       (filter (\<lambda>entry. current_context_id = Some (fst (snd entry))) annotations)"

text \<open>
  \<open>get_annotations_context_id\<close>, lines 287 to 299: the ambient id of the active context,
  which is set to the annotation id when there is no context or when the context has no
  (truthy) id yet. The result is the id and the active context after the call.
\<close>

definition get_annotations_context_id ::
  "64 word \<Rightarrow> trace_context option \<Rightarrow> 64 word \<times> trace_context" where
  "get_annotations_context_id annotation_id current_ctx =
     (case current_ctx of
        None \<Rightarrow>
          (annotation_id,
           set_baggage_item
             \<lparr>ctx_trace_id = None, ctx_span_id = None, ctx_baggage = Map.empty, ctx_meta = Map.empty\<rparr>
             ANNOTATIONS_CONTEXT_ID annotation_id)
      | Some c \<Rightarrow>
          (case get_baggage_item c ANNOTATIONS_CONTEXT_ID of
             None \<Rightarrow> (annotation_id, set_baggage_item c ANNOTATIONS_CONTEXT_ID annotation_id)
           | Some v \<Rightarrow>
               if v = 0 then (annotation_id, set_baggage_item c ANNOTATIONS_CONTEXT_ID annotation_id)
               else (v, c)))"

text \<open>
  \<open>register_annotation\<close>, lines 301 to 306: the entry is appended under the lock. The
  result is the events, the registry and the active context after the call.
\<close>

definition register_annotation ::
  "64 word \<Rightarrow> pyval \<times> pyval \<times> string option \<Rightarrow> annotation_entry list \<Rightarrow> trace_context option
     \<Rightarrow> event list \<times> annotation_entry list \<times> trace_context" where
  "register_annotation annotation_id kw annotations current_ctx =
     (let (ctx_id, c) = get_annotations_context_id annotation_id current_ctx
      in ([Acquire, Release], annotations @ [(annotation_id, ctx_id, kw)], c))"

text \<open>
  \<open>deregister_annotation\<close>, lines 308 to 315. The loop looks for the first entry with
  the annotation id, counting positions; \<open>pop(i)\<close> removes the entry at that position.
\<close>

fun find_annotation :: "64 word \<Rightarrow> nat \<Rightarrow> annotation_entry list \<Rightarrow> nat option" where
  "find_annotation annotation_id i [] = None"
| "find_annotation annotation_id i ((key, context_id, kw) # rest) =
     (if key = annotation_id then Some i else find_annotation annotation_id (Suc i) rest)"

definition pop :: "nat \<Rightarrow> 'a list \<Rightarrow> 'a list" where
  "pop i xs = take i xs @ drop (Suc i) xs"

definition deregister_annotation ::
  "64 word \<Rightarrow> annotation_entry list \<Rightarrow> event list \<times> annotation_entry list" where
  "deregister_annotation annotation_id annotations =
     (case find_annotation annotation_id 0 annotations of
        Some i \<Rightarrow> ([Acquire, Release], pop i annotations)
      | None \<Rightarrow> ([Acquire, Log D_failed_pop_annotation, Release], annotations))"

section \<open>Distributed propagation\<close>

text \<open>
  \<open>LLMObs.activate_distributed_headers\<close>, lines 909 to 921. \<open>HTTPPropagator.extract\<close> is
  not part of the sources at hand; it is a parameter. The result is the messages logged
  and the active context of the context provider after the call.
\<close>

definition activate_distributed_headers ::
  "env \<Rightarrow> ((string \<rightharpoonup> string) \<Rightarrow> trace_context) \<Rightarrow> trace_context option \<Rightarrow> (string \<rightharpoonup> string)
     \<Rightarrow> log_msg list \<times> trace_context option" where
  "activate_distributed_headers e extract active request_headers =
     (if \<not> enabled e then ([W_activate_not_enabled], active)
      else (let c = extract request_headers
            in if ctx_trace_id c = None \<or> ctx_span_id c = None
               then ([W_extract_ids_failed], active)
               else ((if ctx_meta c PROPAGATED_PARENT_ID_KEY = None
                      then [W_extract_parent_id_failed] else []),
                     Some c)))"

section \<open>Concrete values for the examples\<close>

text \<open>
  An instance of the helpers on which the model can be evaluated: the serialiser knows
  strings and two dictionaries, \<open>json_loads\<close> reads these two back, \<open>ensure_text\<close>
  accepts strings only.
\<close>

definition example_helpers :: helpers where
  "example_helpers =
     \<lparr>safe_json = (\<lambda>v. case v of
          PStr s \<Rightarrow> Some s
        | _ \<Rightarrow> if v = PDict [(''a'', PInt 1)] then Some ''{a: 1}''
               else if v = PDict [(''a'', PInt 2), (''b'', PInt 3)] then Some ''{a: 2, b: 3}''
               else None),
      json_loads = (\<lambda>s. if s = ''{a: 1}'' then Some (PDict [(''a'', PInt 1)])
               else if s = ''{a: 2, b: 3}'' then Some (PDict [(''a'', PInt 2), (''b'', PInt 3)])
               else None),
      ensure_text = (\<lambda>v. case v of PStr s \<Rightarrow> Some s | _ \<Rightarrow> None),
      str_other = (\<lambda>v. ''object''),
      validate_prompt = (\<lambda>v. if isinstance_dict v then Some v else None),
      Messages = (\<lambda>v. case v of
          PStr s \<Rightarrow> Some [PDict [(''content'', PStr s)]]
        | PList ms \<Rightarrow> Some ms
        | _ \<Rightarrow> None),
      Documents = (\<lambda>v. case v of
          PStr s \<Rightarrow> Some [PDict [(''text'', PStr s)]]
        | PList ds \<Rightarrow> Some ds
        | _ \<Rightarrow> None),
      get_session_id = (\<lambda>s. None),
      get_ml_app = (\<lambda>s. Some ''app''),
      get_llmobs_parent_id = (\<lambda>s. None)\<rparr>"

definition example_env :: env where
  "example_env =
     \<lparr>enabled = True, dd_api_key = Some ''key'', llmobs_ml_app = Some ''app'',
      ddtrace_version = ''2.14.0'', now_ms = 1700000000000\<rparr>"

definition example_args :: eval_args where
  "example_args =
     \<lparr>span_context = PDict [(''span_id'', PStr ''123''), (''trace_id'', PStr ''abc'')],
      label = PStr ''quality'', metric_type = PStr ''score'', val = PInt 4,
      tags = PNone, ml_app = PNone, timestamp_ms = PNone, metadata = PNone\<rparr>"

text \<open>
  A span of this module as the tracer creates it, a tracer whose active context carries
  the ambient id 5, two registry entries under that id, and a propagator that finds the
  physical ids and the logical parent id in three headers.
\<close>

definition example_span :: span where
  "example_span =
     \<lparr>name = ''llm'', resource = ''llm'', span_type = Some SpanTypes_LLM, finished = False,
      meta = Map.empty\<rparr>"

definition example_context :: trace_context where
  "example_context =
     \<lparr>ctx_trace_id = None, ctx_span_id = None,
      ctx_baggage = [ANNOTATIONS_CONTEXT_ID \<mapsto> 5], ctx_meta = Map.empty\<rparr>"

definition example_tracer :: tracer where
  "example_tracer =
     \<lparr>trace = (\<lambda>n r ty. \<lparr>name = n, resource = r, span_type = Some ty, finished = False,
                          meta = Map.empty\<rparr>),
      current_span = None,
      current_trace_context = Some example_context\<rparr>"

definition example_annotations :: "annotation_entry list" where
  "example_annotations =
     [(5, 5, (PDict [(''a'', PInt 1)], PNone, None)),
      (9, 5, (PDict [(''a'', PInt 2), (''b'', PInt 3)], PNone, None))]"

definition example_annotation :: annotation where
  "example_annotation =
     \<lparr>ann_parameters = PNone, ann_prompt = PNone, ann_input_data = PStr ''hi'',
      ann_output_data = PStr ''hello'', ann_metadata = PDict [(''a'', PInt 1)],
      ann_metrics = PNone, ann_tags = PDict [(''a'', PInt 1)], ann_name = Some ''renamed''\<rparr>"

definition example_extract :: "(string \<rightharpoonup> string) \<Rightarrow> trace_context" where
  "example_extract headers =
     \<lparr>ctx_trace_id = map_option length (headers ''x-datadog-trace-id''),
      ctx_span_id = map_option length (headers ''x-datadog-parent-id''),
      ctx_baggage = Map.empty,
      ctx_meta = (case headers ''x-datadog-tags'' of
                    None \<Rightarrow> Map.empty
                  | Some v \<Rightarrow> [PROPAGATED_PARENT_ID_KEY \<mapsto> v])\<rparr>"

definition example_headers :: "string \<rightharpoonup> string" where
  "example_headers = [''x-datadog-trace-id'' \<mapsto> ''1'', ''x-datadog-parent-id'' \<mapsto> ''2'']"

section \<open>Properties of evaluation submission\<close>


lemma se_after_timestamp:
  assumes "enabled e" "truthy (opt_str (dd_api_key e))" "isinstance_dict (span_context a)"
    "truthy (resolved_ml_app e a)"
    "isinstance_int (resolved_timestamp e a)" "0 \<le> int_value (resolved_timestamp e a)"
  shows "submit_evaluation h e a =
     (if \<not> ids_present (span_context a) then Inr ([W_ids_missing], None)
      else if \<not> truthy (label a) then Inr ([W_label_missing], None)
      else if \<not> truthy (metric_type a) then Inr ([W_metric_type_invalid], None)
      else if \<not> isinstance_str (metric_type a) then Inl AttributeError
      else if metric_kind (metric_type a) = None then Inr ([W_metric_type_invalid], None)
      else check_value_and_tags h e a (resolved_ml_app e a) (resolved_timestamp e a)
             (dict_get (span_context a) ''span_id'') (dict_get (span_context a) ''trace_id'')
             (lower (str_value (metric_type a))))"
  using assms unfolding resolved_ml_app_def resolved_timestamp_def ids_present_def metric_kind_def
  by (simp add: submit_evaluation_def Let_def)

lemma se_disabled: "\<not> enabled e \<Longrightarrow> submit_evaluation h e a = Inr ([W_submit_not_enabled], None)"
  by (simp add: submit_evaluation_def)

lemma se_no_key:
  "enabled e \<Longrightarrow> \<not> truthy (opt_str (dd_api_key e)) \<Longrightarrow>
   submit_evaluation h e a = Inr ([W_api_key_required], None)"
  by (simp add: submit_evaluation_def)

lemma se_not_dict:
  "enabled e \<Longrightarrow> truthy (opt_str (dd_api_key e)) \<Longrightarrow> \<not> isinstance_dict (span_context a)
   \<Longrightarrow> submit_evaluation h e a = Inr ([W_span_context_not_dict], None)"
  by (simp add: submit_evaluation_def)

lemma se_no_ml_app:
  "enabled e \<Longrightarrow> truthy (opt_str (dd_api_key e)) \<Longrightarrow> isinstance_dict (span_context a) \<Longrightarrow>
   \<not> truthy (resolved_ml_app e a) \<Longrightarrow>
   submit_evaluation h e a = Inr ([W_ml_app_required], None)"
  unfolding resolved_ml_app_def
  by (simp add: submit_evaluation_def Let_def)

lemma se_bad_timestamp:
  "enabled e \<Longrightarrow> truthy (opt_str (dd_api_key e)) \<Longrightarrow> isinstance_dict (span_context a) \<Longrightarrow>
   truthy (resolved_ml_app e a) \<Longrightarrow>
   \<not> (isinstance_int (resolved_timestamp e a) \<and> 0 \<le> int_value (resolved_timestamp e a)) \<Longrightarrow>
   submit_evaluation h e a = Inr ([W_timestamp_invalid], None)"
  unfolding resolved_ml_app_def resolved_timestamp_def
  by (simp add: submit_evaluation_def Let_def not_le)

lemma metric_kind_lower:
  "metric_kind m = Some k \<Longrightarrow>
   k = (if lower (str_value m) = ''numerical'' then ''score'' else lower (str_value m))"
  by (auto simp: metric_kind_def split: if_splits)

lemma metric_kind_cases:
  "metric_kind m = Some k \<Longrightarrow> k = ''categorical'' \<or> k = ''score''"
  by (auto simp: metric_kind_def split: if_splits)

lemma cvt_value:
  assumes "k = (if m = ''numerical'' then ''score'' else m)"
  shows "check_value_and_tags h e a ml ts sid tid m =
     (let lg = (if m = ''numerical'' then [W_numerical_unsupported] else [])
      in if k = ''categorical'' \<and> \<not> isinstance_str (val a)
         then Inr (lg @ [W_value_not_string], None)
         else if k = ''score'' \<and> \<not> isinstance_int_float (val a)
         then Inr (lg @ [W_value_not_numeric], None)
         else if tags a \<noteq> PNone \<and> \<not> isinstance_dict (tags a)
         then Inr (lg @ [W_tags_not_dict], None)
         else build_and_enqueue h e a ml ts sid tid k lg)"
  using assms by (simp add: check_value_and_tags_def Let_def)

text \<open>
  Claim C1, as amended. The checks of \<open>submit_evaluation\<close> are made in the order of
  \<open>code_checks\<close>: service enabled, credential configured, span context a dictionary,
  application id resolvable, timestamp a non-negative integer (the current time when the
  argument is falsy), span id and trace id both present, label non-empty, metric type
  known, value of the type of the kind, tags a dictionary when given. For a metric type
  that is a string or falsy, the first check that fails ends the call: its warning is the
  last message logged (preceded at most by the deprecation warning for the numerical
  alias), nothing is enqueued and no exception leaves the call.
\<close>

theorem submit_evaluation_check_order:
  assumes sf: "str_or_falsy (metric_type a)"
      and ff: "find (\<lambda>p. \<not> snd p) (code_checks e a) = Some (w, ok)"
  shows "submit_evaluation h e a = Inr ([w], None)
       \<or> submit_evaluation h e a = Inr ([W_numerical_unsupported, w], None)"
proof -
  show ?thesis
  proof (cases "enabled e")
    case False
    with ff have "w = W_submit_not_enabled" by (simp add: code_checks_def)
    with False show ?thesis by (simp add: se_disabled)
  next
    case c1: True
    show ?thesis
    proof (cases "truthy (opt_str (dd_api_key e))")
      case False
      with c1 ff have "w = W_api_key_required" by (simp add: code_checks_def)
      with c1 False show ?thesis by (simp add: se_no_key)
    next
      case c2: True
      show ?thesis
      proof (cases "isinstance_dict (span_context a)")
        case False
        with c1 c2 ff have "w = W_span_context_not_dict" by (simp add: code_checks_def)
        with c1 c2 False show ?thesis by (simp add: se_not_dict)
      next
        case c3: True
        show ?thesis
        proof (cases "truthy (resolved_ml_app e a)")
          case False
          with c1 c2 c3 ff have "w = W_ml_app_required" by (simp add: code_checks_def)
          with se_no_ml_app[OF c1 c2 c3 False] show ?thesis by simp
        next
          case c4: True
          show ?thesis
          proof (cases "isinstance_int (resolved_timestamp e a) \<and> 0 \<le> int_value (resolved_timestamp e a)")
            case False
            with c1 c2 c3 c4 ff have "w = W_timestamp_invalid" by (simp add: code_checks_def)
            with se_bad_timestamp[OF c1 c2 c3 c4 False] show ?thesis by simp
          next
            case c5: True
            note st = se_after_timestamp[OF c1 c2 c3 c4 conjunct1[OF c5] conjunct2[OF c5]]
            show ?thesis
            proof (cases "ids_present (span_context a)")
              case False
              with c1 c2 c3 c4 c5 ff have "w = W_ids_missing" by (simp add: code_checks_def)
              with False show ?thesis by (simp add: st)
            next
              case c6: True
              show ?thesis
              proof (cases "truthy (label a)")
                case False
                with c1 c2 c3 c4 c5 c6 ff have "w = W_label_missing" by (simp add: code_checks_def)
                with False c6 show ?thesis by (simp add: st)
              next
                case c7: True
                show ?thesis
                proof (cases "metric_kind (metric_type a)")
                  case None
                  with c1 c2 c3 c4 c5 c6 c7 ff have w: "w = W_metric_type_invalid"
                    by (simp add: code_checks_def)
                  from sf have "\<not> truthy (metric_type a) \<or> isinstance_str (metric_type a)"
                    by (simp add: str_or_falsy_def)
                  then have "submit_evaluation h e a = Inr ([W_metric_type_invalid], None)"
                    using c6 c7 None unfolding st by auto
                  with w show ?thesis by simp
                next
                  case (Some k)
                  then have str: "isinstance_str (metric_type a)" and tr: "truthy (metric_type a)"
                    by (cases "metric_type a"; auto simp: metric_kind_def lower_def split: if_splits)+
                  have se: "submit_evaluation h e a =
                      check_value_and_tags h e a (resolved_ml_app e a) (resolved_timestamp e a)
                       (dict_get (span_context a) ''span_id'') (dict_get (span_context a) ''trace_id'')
                       (lower (str_value (metric_type a)))"
                    using c6 c7 Some str tr unfolding st by simp
                  note k = metric_kind_lower[OF Some]
                  from c1 c2 c3 c4 c5 c6 c7 Some ff
                  have f3: "find (\<lambda>p. \<not> snd p)
                    [(W_value_not_string, \<not> (k = ''categorical'' \<and> \<not> isinstance_str (val a))),
                     (W_value_not_numeric, \<not> (k = ''score'' \<and> \<not> isinstance_int_float (val a))),
                     (W_tags_not_dict, \<not> (tags a \<noteq> PNone \<and> \<not> isinstance_dict (tags a)))] = Some (w, ok)"
                    by (simp add: code_checks_def)
                  show ?thesis
                  proof (cases "k = ''categorical'' \<and> \<not> isinstance_str (val a)")
                    case True
                    with f3 have "w = W_value_not_string" by simp
                    with True show ?thesis
                      unfolding se cvt_value[OF k] by (simp add: Let_def)
                  next
                    case v1: False
                    show ?thesis
                    proof (cases "k = ''score'' \<and> \<not> isinstance_int_float (val a)")
                      case True
                      with f3 v1 have "w = W_value_not_numeric" by simp
                      with True v1 show ?thesis
                        unfolding se cvt_value[OF k] by (simp add: Let_def)
                    next
                      case v2: False
                      with f3 v1 have "w = W_tags_not_dict" and "tags a \<noteq> PNone \<and> \<not> isinstance_dict (tags a)"
                        by (simp_all split: if_splits)
                      with v1 v2 show ?thesis
                        unfolding se cvt_value[OF k] by (simp add: Let_def)
                    qed
                  qed
                qed
              qed
            qed
          qed
        qed
      qed
    qed
  qed
qed


lemma se_success:
  assumes "submit_evaluation h e a = Inr (lg, Some q)"
  shows "\<exists>k. metric_kind (metric_type a) = Some k \<and>
     build_and_enqueue h e a (resolved_ml_app e a) (resolved_timestamp e a)
        (dict_get (span_context a) ''span_id'') (dict_get (span_context a) ''trace_id'') k
        (if lower (str_value (metric_type a)) = ''numerical'' then [W_numerical_unsupported] else [])
       = Inr (lg, Some q)"
proof -
  have c1: "enabled e" using assms by (rule_tac ccontr) (simp add: se_disabled)
  have c2: "truthy (opt_str (dd_api_key e))" using assms c1 by (rule_tac ccontr) (simp add: se_no_key)
  have c3: "isinstance_dict (span_context a)" using assms c1 c2 by (rule_tac ccontr) (simp add: se_not_dict)
  have c4: "truthy (resolved_ml_app e a)" using assms c1 c2 c3 by (rule_tac ccontr) (simp add: se_no_ml_app)
  have c5: "isinstance_int (resolved_timestamp e a) \<and> 0 \<le> int_value (resolved_timestamp e a)"
    using assms c1 c2 c3 c4 by (rule_tac ccontr) (simp add: se_bad_timestamp)
  note st = se_after_timestamp[OF c1 c2 c3 c4 conjunct1[OF c5] conjunct2[OF c5]]
  from assms obtain k where k: "metric_kind (metric_type a) = Some k"
    and cv: "check_value_and_tags h e a (resolved_ml_app e a) (resolved_timestamp e a)
             (dict_get (span_context a) ''span_id'') (dict_get (span_context a) ''trace_id'')
             (lower (str_value (metric_type a))) = Inr (lg, Some q)"
    unfolding st by (auto split: if_splits)
  from cv show ?thesis
    unfolding cvt_value[OF metric_kind_lower[OF k]] using k
    by (auto simp: Let_def split: if_splits)
qed


lemma lower_score [simp]: "lower ''score'' = ''score''"
  by (simp add: lower_def lower_char_def)

lemma lower_categorical [simp]: "lower ''categorical'' = ''categorical''"
  by (simp add: lower_def lower_char_def)

lemma tags_loop_prefix:
  "evaluation_tags_loop h items (t, pre @ lg) =
     (fst (evaluation_tags_loop h items (t, lg)), pre @ snd (evaluation_tags_loop h items (t, lg)))"
  by (induction items arbitrary: t lg) (auto split: option.splits)

lemma collect_prefix:
  "collect_evaluation_tags h e t ml (pre @ lg) =
     (fst (collect_evaluation_tags h e t ml lg), pre @ snd (collect_evaluation_tags h e t ml lg))"
  by (simp add: collect_evaluation_tags_def Let_def tags_loop_prefix)

lemma add_metadata_prefix:
  "add_metadata_and_enqueue h m em (pre @ lg) =
     map_sum id (apfst ((@) pre)) (add_metadata_and_enqueue h m em lg)"
  by (simp add: add_metadata_and_enqueue_def split: option.splits)

lemma build_prefix:
  "build_and_enqueue h e a ml ts sid tid k (pre @ lg) =
     map_sum id (apfst ((@) pre)) (build_and_enqueue h e a ml ts sid tid k lg)"
  unfolding build_and_enqueue_def
  by (subst collect_prefix) (simp add: split_beta add_metadata_prefix)

lemma add_metadata_record:
  assumes "add_metadata_and_enqueue h m em lg0 = Inr (lg, Some q)" and "x \<noteq> ''metadata''"
  shows "\<exists>r. q = PDict r \<and> map_of r x = map_of em x"
  using assms unfolding add_metadata_and_enqueue_def
  by (auto simp: update_conv' split: if_splits option.splits)

lemma build_record:
  assumes k: "k = ''categorical'' \<or> k = ''score''"
      and b: "build_and_enqueue h e a ml ts sid tid k lg0 = Inr (lg, Some q)"
  shows "\<exists>r. q = PDict r \<and> map_of r ''metric_type'' = Some (PStr k)
            \<and> map_of r ''timestamp_ms'' = Some ts
            \<and> map_of r (k @ ''_value'') = Some (val a)"
proof -
  obtain et lg1 where c: "collect_evaluation_tags h e (tags a) ml lg0 = (et, lg1)"
    by (cases "collect_evaluation_tags h e (tags a) ml lg0")
  let ?em = "evaluation_metric h a ml ts sid tid k et"
  from b c have m: "add_metadata_and_enqueue h (metadata a) ?em lg1 = Inr (lg, Some q)"
    by (simp add: build_and_enqueue_def)
  from add_metadata_record[OF m, of "''metric_type''"]
  obtain r where r: "q = PDict r" and r1: "map_of r ''metric_type'' = map_of ?em ''metric_type''"
    by auto
  from add_metadata_record[OF m, of "''timestamp_ms''"] r
  have r2: "map_of r ''timestamp_ms'' = map_of ?em ''timestamp_ms''" by auto
  from k have "k @ ''_value'' \<noteq> ''metadata''" by auto
  from add_metadata_record[OF m this] r
  have r3: "map_of r (k @ ''_value'') = map_of ?em (k @ ''_value'')" by auto
  from k have "map_of ?em ''metric_type'' = Some (PStr k)"
    and "map_of ?em ''timestamp_ms'' = Some ts"
    and "map_of ?em (k @ ''_value'') = Some (val a)"
    by (auto simp: evaluation_metric_def)
  with r r1 r2 r3 show ?thesis by simp
qed


lemma cvt_timestamp_indep:
  "check_value_and_tags h e (a\<lparr>timestamp_ms := x\<rparr>) ml ts sid tid m =
   check_value_and_tags h e a ml ts sid tid m"
  by (simp add: check_value_and_tags_def build_and_enqueue_def evaluation_metric_def)

lemma cvt_metric_type_indep:
  "check_value_and_tags h e (a\<lparr>metric_type := x\<rparr>) ml ts sid tid m =
   check_value_and_tags h e a ml ts sid tid m"
  by (simp add: check_value_and_tags_def build_and_enqueue_def evaluation_metric_def)

lemma cvt_numerical:
  "check_value_and_tags h e a ml ts sid tid ''numerical'' =
   map_sum id (apfst ((#) W_numerical_unsupported)) (check_value_and_tags h e a ml ts sid tid ''score'')"
proof -
  have c: "(@) [W_numerical_unsupported] = (#) W_numerical_unsupported"
    by (rule ext) simp
  show ?thesis
    using build_prefix[of h e a ml ts sid tid "''score''" "[W_numerical_unsupported]" "[]"]
    by (simp add: check_value_and_tags_def c)
qed

text \<open>
  Claim C10. A call of \<open>submit_evaluation\<close> with the timestamp 0 behaves as the call
  without a timestamp: 0 is falsy, so the current time in milliseconds is substituted,
  and the record enqueued carries that time under \<open>timestamp_ms\<close>, not 0.
\<close>

theorem submit_evaluation_timestamp_zero:
  "submit_evaluation h e (a\<lparr>timestamp_ms := PInt 0\<rparr>) = submit_evaluation h e (a\<lparr>timestamp_ms := PNone\<rparr>)
   \<and> (\<forall>lg q. submit_evaluation h e (a\<lparr>timestamp_ms := PInt 0\<rparr>) = Inr (lg, Some q) \<longrightarrow>
         (\<exists>r. q = PDict r \<and> map_of r ''timestamp_ms'' = Some (PInt (now_ms e))))"
proof (intro conjI allI impI)
  show "submit_evaluation h e (a\<lparr>timestamp_ms := PInt 0\<rparr>) = submit_evaluation h e (a\<lparr>timestamp_ms := PNone\<rparr>)"
    by (simp add: submit_evaluation_def cvt_timestamp_indep Let_def)
next
  fix lg q
  assume s: "submit_evaluation h e (a\<lparr>timestamp_ms := PInt 0\<rparr>) = Inr (lg, Some q)"
  let ?a = "a\<lparr>timestamp_ms := PInt 0\<rparr>"
  have ts: "resolved_timestamp e ?a = PInt (now_ms e)"
    by (simp add: resolved_timestamp_def)
  from se_success[OF s] obtain k where k: "metric_kind (metric_type ?a) = Some k"
    and b: "build_and_enqueue h e ?a (resolved_ml_app e ?a) (PInt (now_ms e))
        (dict_get (span_context ?a) ''span_id'') (dict_get (span_context ?a) ''trace_id'') k
        (if lower (str_value (metric_type ?a)) = ''numerical'' then [W_numerical_unsupported] else [])
       = Inr (lg, Some q)"
    unfolding ts by blast
  from build_record[OF metric_kind_cases[OF k] b]
  show "\<exists>r. q = PDict r \<and> map_of r ''timestamp_ms'' = Some (PInt (now_ms e))"
    by blast
qed

lemma add_metadata_shape:
  "add_metadata_and_enqueue h m em lg = Inl JSONDecodeError
   \<or> (\<exists>lg' r. add_metadata_and_enqueue h m em lg = Inr (lg @ lg', Some (PDict r)))"
  by (simp add: add_metadata_and_enqueue_def split: option.splits)

lemma add_metadata_falsy:
  "\<not> truthy m \<Longrightarrow> add_metadata_and_enqueue h m em lg = Inr (lg, Some (PDict em))"
  by (simp add: add_metadata_and_enqueue_def)

lemma build_shape:
  "build_and_enqueue h e a ml ts sid tid k [w] = Inl JSONDecodeError
   \<or> (\<exists>lg r. build_and_enqueue h e a ml ts sid tid k [w] = Inr (w # lg, Some (PDict r)))"
proof -
  obtain et lg1 where c: "collect_evaluation_tags h e (tags a) ml [] = (et, lg1)"
    by (cases "collect_evaluation_tags h e (tags a) ml []")
  have b: "build_and_enqueue h e a ml ts sid tid k [] =
           add_metadata_and_enqueue h (metadata a) (evaluation_metric h a ml ts sid tid k et) lg1"
    by (simp add: build_and_enqueue_def c)
  have p: "build_and_enqueue h e a ml ts sid tid k [w] =
           map_sum id (apfst ((@) [w])) (build_and_enqueue h e a ml ts sid tid k [])"
    using build_prefix[of h e a ml ts sid tid k "[w]" "[]"] by simp
  from add_metadata_shape[of h "metadata a" "evaluation_metric h a ml ts sid tid k et" lg1]
  show ?thesis
    unfolding p b by auto
qed

lemma build_falsy_metadata:
  assumes "\<not> truthy (metadata a)"
  shows "\<exists>lg r. build_and_enqueue h e a ml ts sid tid k [w] = Inr (w # lg, Some (PDict r))"
  using build_shape[of h e a ml ts sid tid k w] assms
  by (auto simp: build_and_enqueue_def split_beta add_metadata_falsy)

lemma se_numerical_accepted:
  assumes lw: "lower mt = ''numerical''"
      and c: "enabled e" "truthy (opt_str (dd_api_key e))" "isinstance_dict (span_context a)"
             "truthy (resolved_ml_app e a)"
             "isinstance_int (resolved_timestamp e a)" "0 \<le> int_value (resolved_timestamp e a)"
             "ids_present (span_context a)" "truthy (label a)"
             "isinstance_int_float (val a)" "tags a = PNone \<or> isinstance_dict (tags a)"
  shows "submit_evaluation h e (a\<lparr>metric_type := PStr mt\<rparr>)
           = build_and_enqueue h e (a\<lparr>metric_type := PStr mt\<rparr>)
               (resolved_ml_app e a) (resolved_timestamp e a)
               (dict_get (span_context a) ''span_id'') (dict_get (span_context a) ''trace_id'')
               ''score'' [W_numerical_unsupported]"
proof -
  let ?a = "a\<lparr>metric_type := PStr mt\<rparr>"
  from lw have ne: "mt \<noteq> []" by (auto simp: lower_def)
  have r: "resolved_ml_app e ?a = resolved_ml_app e a" "resolved_timestamp e ?a = resolved_timestamp e a"
    by (simp_all add: resolved_ml_app_def resolved_timestamp_def)
  have mk: "metric_kind (metric_type ?a) = Some ''score''"
    using lw by (simp add: metric_kind_def)
  have st: "submit_evaluation h e ?a =
      check_value_and_tags h e ?a (resolved_ml_app e a) (resolved_timestamp e a)
        (dict_get (span_context a) ''span_id'') (dict_get (span_context a) ''trace_id'') ''numerical''"
    using se_after_timestamp[of e ?a h] c mk ne lw by (simp add: r)
  have k: "''score'' = (if ''numerical'' = ''numerical'' then ''score'' else ''numerical'')"
    by simp
  show ?thesis
    unfolding st cvt_value[OF k] using c(9,10) by (auto simp: Let_def)
qed

text \<open>
  Claim C5. A metric type that lowers to \<open>numerical\<close>, in any letter case, passes the
  check of the metric type and stands for the kind \<open>score\<close>. When the other checks pass
  (service enabled, credential, span context with both ids, application id, timestamp,
  label, a numeric value, tags a dictionary or absent), the call is accepted: it logs the
  deprecation warning and enqueues a record with the metric type \<open>score\<close> and the value
  under \<open>score_value\<close>; the only other outcome is the exception of \<open>json.loads\<close> on the
  metadata, which needs metadata. In all cases the call does what the call with \<open>score\<close>
  does, up to the deprecation warning logged first, and every record it enqueues has the
  metric type \<open>score\<close> and holds the value under \<open>score_value\<close>.
\<close>

theorem submit_evaluation_numerical_as_score:
  assumes "lower mt = ''numerical''"
  shows "metric_kind (PStr mt) = Some ''score''
       \<and> (enabled e \<and> truthy (opt_str (dd_api_key e)) \<and> isinstance_dict (span_context a)
            \<and> truthy (resolved_ml_app e a)
            \<and> isinstance_int (resolved_timestamp e a) \<and> 0 \<le> int_value (resolved_timestamp e a)
            \<and> ids_present (span_context a) \<and> truthy (label a)
            \<and> isinstance_int_float (val a) \<and> (tags a = PNone \<or> isinstance_dict (tags a)) \<longrightarrow>
          (submit_evaluation h e (a\<lparr>metric_type := PStr mt\<rparr>) = Inl JSONDecodeError
             \<and> truthy (metadata a)
           \<or> (\<exists>lg r. submit_evaluation h e (a\<lparr>metric_type := PStr mt\<rparr>)
                        = Inr (W_numerical_unsupported # lg, Some (PDict r))
                      \<and> map_of r ''metric_type'' = Some (PStr ''score'')
                      \<and> map_of r ''score_value'' = Some (val a))))
       \<and> (submit_evaluation h e (a\<lparr>metric_type := PStr mt\<rparr>)
            = submit_evaluation h e (a\<lparr>metric_type := PStr ''score''\<rparr>)
          \<or> submit_evaluation h e (a\<lparr>metric_type := PStr mt\<rparr>)
            = map_sum id (apfst ((#) W_numerical_unsupported))
                (submit_evaluation h e (a\<lparr>metric_type := PStr ''score''\<rparr>)))
       \<and> (\<forall>lg q. submit_evaluation h e (a\<lparr>metric_type := PStr mt\<rparr>) = Inr (lg, Some q) \<longrightarrow>
            (\<exists>r. q = PDict r \<and> map_of r ''metric_type'' = Some (PStr ''score'')
                  \<and> map_of r ''score_value'' = Some (val a)))"
proof (intro conjI allI impI)
  show "metric_kind (PStr mt) = Some ''score''"
    using assms by (simp add: metric_kind_def)
next
  let ?a = "a\<lparr>metric_type := PStr mt\<rparr>"
  assume c: "enabled e \<and> truthy (opt_str (dd_api_key e)) \<and> isinstance_dict (span_context a)
            \<and> truthy (resolved_ml_app e a)
            \<and> isinstance_int (resolved_timestamp e a) \<and> 0 \<le> int_value (resolved_timestamp e a)
            \<and> ids_present (span_context a) \<and> truthy (label a)
            \<and> isinstance_int_float (val a) \<and> (tags a = PNone \<or> isinstance_dict (tags a))"
  then have se: "submit_evaluation h e ?a
           = build_and_enqueue h e ?a (resolved_ml_app e a) (resolved_timestamp e a)
               (dict_get (span_context a) ''span_id'') (dict_get (span_context a) ''trace_id'')
               ''score'' [W_numerical_unsupported]"
    by (intro se_numerical_accepted[OF assms]) simp_all
  show "submit_evaluation h e ?a = Inl JSONDecodeError \<and> truthy (metadata a)
        \<or> (\<exists>lg r. submit_evaluation h e ?a = Inr (W_numerical_unsupported # lg, Some (PDict r))
                      \<and> map_of r ''metric_type'' = Some (PStr ''score'')
                      \<and> map_of r ''score_value'' = Some (val a))"
  proof (cases "submit_evaluation h e ?a")
    case (Inl x)
    with se build_shape[of h e ?a "resolved_ml_app e a" "resolved_timestamp e a"
            "dict_get (span_context a) ''span_id''" "dict_get (span_context a) ''trace_id''"
            "''score''" W_numerical_unsupported]
    have x: "submit_evaluation h e ?a = Inl JSONDecodeError" by auto
    have "truthy (metadata a)"
    proof (rule ccontr)
      assume "\<not> truthy (metadata a)"
      then have "\<not> truthy (metadata ?a)" by simp
      from build_falsy_metadata[OF this, of h e "resolved_ml_app e a" "resolved_timestamp e a"
            "dict_get (span_context a) ''span_id''" "dict_get (span_context a) ''trace_id''"
            "''score''" W_numerical_unsupported] se x
      show False by auto
    qed
    with x show ?thesis by simp
  next
    case (Inr y)
    with se build_shape[of h e ?a "resolved_ml_app e a" "resolved_timestamp e a"
            "dict_get (span_context a) ''span_id''" "dict_get (span_context a) ''trace_id''"
            "''score''" W_numerical_unsupported]
    obtain lg r where y: "build_and_enqueue h e ?a (resolved_ml_app e a) (resolved_timestamp e a)
               (dict_get (span_context a) ''span_id'') (dict_get (span_context a) ''trace_id'')
               ''score'' [W_numerical_unsupported] = Inr (W_numerical_unsupported # lg, Some (PDict r))"
      by auto
    from build_record[OF _ y]
    have "map_of r ''metric_type'' = Some (PStr ''score'')
          \<and> map_of r ''score_value'' = Some (val a)"
      by auto
    with y se show ?thesis by auto
  qed
next
  from assms have ne: "mt \<noteq> []" by (auto simp: lower_def)
  show "submit_evaluation h e (a\<lparr>metric_type := PStr mt\<rparr>)
            = submit_evaluation h e (a\<lparr>metric_type := PStr ''score''\<rparr>)
          \<or> submit_evaluation h e (a\<lparr>metric_type := PStr mt\<rparr>)
            = map_sum id (apfst ((#) W_numerical_unsupported))
                (submit_evaluation h e (a\<lparr>metric_type := PStr ''score''\<rparr>))"
    using assms ne
    by (simp add: submit_evaluation_def cvt_metric_type_indep cvt_numerical Let_def)
next
  fix lg q
  let ?a = "a\<lparr>metric_type := PStr mt\<rparr>"
  assume s: "submit_evaluation h e ?a = Inr (lg, Some q)"
  from assms have mk: "metric_kind (metric_type ?a) = Some ''score''"
    by (simp add: metric_kind_def)
  from se_success[OF s] mk
  have b: "build_and_enqueue h e ?a (resolved_ml_app e ?a) (resolved_timestamp e ?a)
        (dict_get (span_context ?a) ''span_id'') (dict_get (span_context ?a) ''trace_id'') ''score''
        (if lower (str_value (metric_type ?a)) = ''numerical'' then [W_numerical_unsupported] else [])
       = Inr (lg, Some q)"
    by auto
  from build_record[OF _ b]
  show "\<exists>r. q = PDict r \<and> map_of r ''metric_type'' = Some (PStr ''score'')
                  \<and> map_of r ''score_value'' = Some (val a)"
    by auto
qed

section \<open>Examples of evaluation submission\<close>

text \<open>
  Claim C1 as the specification states it fails: the specification has the identifiers
  of the span checked in its third step, before the application id and the timestamp.
  For a span context without identifiers and the timestamp \<open>-5\<close> the code reports the
  timestamp, the fifth step of the specification, and not the span context.
\<close>

theorem submit_evaluation_spec_order_counterexample:
  "spec_first_failure example_env
       (example_args\<lparr>span_context := PDict [], timestamp_ms := PInt (- 5)\<rparr>)
     = Some Step_span_ref
   \<and> submit_evaluation example_helpers example_env
       (example_args\<lparr>span_context := PDict [], timestamp_ms := PInt (- 5)\<rparr>)
     = Inr ([W_timestamp_invalid], None)
   \<and> reported_step (submit_evaluation example_helpers example_env
       (example_args\<lparr>span_context := PDict [], timestamp_ms := PInt (- 5)\<rparr>))
     = Some Step_timestamp"
  by code_simp

theorem submit_evaluation_check_order_witness:
  "str_or_falsy (metric_type (example_args\<lparr>metric_type := PStr ''Numerical'', val := PStr ''high''\<rparr>))
   \<and> find (\<lambda>p. \<not> snd p)
        (code_checks example_env (example_args\<lparr>metric_type := PStr ''Numerical'', val := PStr ''high''\<rparr>))
      = Some (W_value_not_numeric, False)
   \<and> (submit_evaluation example_helpers example_env
          (example_args\<lparr>metric_type := PStr ''Numerical'', val := PStr ''high''\<rparr>)
        = Inr ([W_value_not_numeric], None)
      \<or> submit_evaluation example_helpers example_env
          (example_args\<lparr>metric_type := PStr ''Numerical'', val := PStr ''high''\<rparr>)
        = Inr ([W_numerical_unsupported, W_value_not_numeric], None))"
proof -
  let ?a = "example_args\<lparr>metric_type := PStr ''Numerical'', val := PStr ''high''\<rparr>"
  have sf: "str_or_falsy (metric_type ?a)"
    by code_simp
  have ff: "find (\<lambda>p. \<not> snd p) (code_checks example_env ?a) = Some (W_value_not_numeric, False)"
    by code_simp
  show ?thesis
    by (intro conjI) (rule sf, rule ff, rule submit_evaluation_check_order[OF sf ff])
qed

theorem submit_evaluation_numerical_as_score_witness:
  "lower ''NumErical'' = ''numerical''
   \<and> (enabled example_env \<and> truthy (opt_str (dd_api_key example_env))
        \<and> isinstance_dict (span_context example_args)
        \<and> truthy (resolved_ml_app example_env example_args)
        \<and> isinstance_int (resolved_timestamp example_env example_args)
        \<and> 0 \<le> int_value (resolved_timestamp example_env example_args)
        \<and> ids_present (span_context example_args) \<and> truthy (label example_args)
        \<and> isinstance_int_float (val example_args)
        \<and> (tags example_args = PNone \<or> isinstance_dict (tags example_args)))
   \<and> (submit_evaluation example_helpers example_env
          (example_args\<lparr>metric_type := PStr ''NumErical''\<rparr>) = Inl JSONDecodeError
        \<and> truthy (metadata example_args)
      \<or> (\<exists>lg r. submit_evaluation example_helpers example_env
                     (example_args\<lparr>metric_type := PStr ''NumErical''\<rparr>)
                   = Inr (W_numerical_unsupported # lg, Some (PDict r))
                 \<and> map_of r ''metric_type'' = Some (PStr ''score'')
                 \<and> map_of r ''score_value'' = Some (val example_args)))
   \<and> submit_evaluation example_helpers example_env (example_args\<lparr>metric_type := PStr ''NumErical''\<rparr>)
     = Inr ([W_numerical_unsupported],
        Some (PDict [(''span_id'', PStr ''123''), (''trace_id'', PStr ''abc''),
          (''label'', PStr ''quality''), (''metric_type'', PStr ''score''),
          (''timestamp_ms'', PInt 1700000000000), (''score_value'', PInt 4),
          (''ml_app'', PStr ''app''),
          (''tags'', PList [PStr ''ddtrace.version:2.14.0'', PStr ''ml_app:app''])]))
   \<and> (\<exists>r. PDict [(''span_id'', PStr ''123''), (''trace_id'', PStr ''abc''),
          (''label'', PStr ''quality''), (''metric_type'', PStr ''score''),
          (''timestamp_ms'', PInt 1700000000000), (''score_value'', PInt 4),
          (''ml_app'', PStr ''app''),
          (''tags'', PList [PStr ''ddtrace.version:2.14.0'', PStr ''ml_app:app''])] = PDict r
        \<and> map_of r ''metric_type'' = Some (PStr ''score'')
        \<and> map_of r ''score_value'' = Some (val example_args))"
proof -
  have lw: "lower ''NumErical'' = ''numerical''"
    by code_simp
  have c: "enabled example_env \<and> truthy (opt_str (dd_api_key example_env))
        \<and> isinstance_dict (span_context example_args)
        \<and> truthy (resolved_ml_app example_env example_args)
        \<and> isinstance_int (resolved_timestamp example_env example_args)
        \<and> 0 \<le> int_value (resolved_timestamp example_env example_args)
        \<and> ids_present (span_context example_args) \<and> truthy (label example_args)
        \<and> isinstance_int_float (val example_args)
        \<and> (tags example_args = PNone \<or> isinstance_dict (tags example_args))"
    by (simp add: example_env_def example_args_def resolved_ml_app_def resolved_timestamp_def
        ids_present_def dict_get_def)
  have ev: "submit_evaluation example_helpers example_env (example_args\<lparr>metric_type := PStr ''NumErical''\<rparr>)
     = Inr ([W_numerical_unsupported],
        Some (PDict [(''span_id'', PStr ''123''), (''trace_id'', PStr ''abc''),
          (''label'', PStr ''quality''), (''metric_type'', PStr ''score''),
          (''timestamp_ms'', PInt 1700000000000), (''score_value'', PInt 4),
          (''ml_app'', PStr ''app''),
          (''tags'', PList [PStr ''ddtrace.version:2.14.0'', PStr ''ml_app:app''])]))"
    by code_simp
  note t = submit_evaluation_numerical_as_score[OF lw, of example_env example_args example_helpers]
  note acc = t[THEN conjunct2, THEN conjunct1, THEN mp, OF c]
  note r = t[THEN conjunct2, THEN conjunct2, THEN conjunct2, rule_format, OF ev]
  show ?thesis
    by (rule conjI[OF lw conjI[OF c conjI[OF acc conjI[OF ev r]]]])
qed

theorem submit_evaluation_timestamp_zero_witness:
  "submit_evaluation example_helpers example_env (example_args\<lparr>timestamp_ms := PInt 0\<rparr>)
     = Inr ([],
        Some (PDict [(''span_id'', PStr ''123''), (''trace_id'', PStr ''abc''),
          (''label'', PStr ''quality''), (''metric_type'', PStr ''score''),
          (''timestamp_ms'', PInt 1700000000000), (''score_value'', PInt 4),
          (''ml_app'', PStr ''app''),
          (''tags'', PList [PStr ''ddtrace.version:2.14.0'', PStr ''ml_app:app''])]))
   \<and> (\<exists>r. PDict [(''span_id'', PStr ''123''), (''trace_id'', PStr ''abc''),
          (''label'', PStr ''quality''), (''metric_type'', PStr ''score''),
          (''timestamp_ms'', PInt 1700000000000), (''score_value'', PInt 4),
          (''ml_app'', PStr ''app''),
          (''tags'', PList [PStr ''ddtrace.version:2.14.0'', PStr ''ml_app:app''])] = PDict r
        \<and> map_of r ''timestamp_ms'' = Some (PInt (now_ms example_env)))"
proof -
  have ev: "submit_evaluation example_helpers example_env (example_args\<lparr>timestamp_ms := PInt 0\<rparr>)
     = Inr ([],
        Some (PDict [(''span_id'', PStr ''123''), (''trace_id'', PStr ''abc''),
          (''label'', PStr ''quality''), (''metric_type'', PStr ''score''),
          (''timestamp_ms'', PInt 1700000000000), (''score_value'', PInt 4),
          (''ml_app'', PStr ''app''),
          (''tags'', PList [PStr ''ddtrace.version:2.14.0'', PStr ''ml_app:app''])]))"
    by code_simp
  note r = submit_evaluation_timestamp_zero[THEN conjunct2, rule_format, OF ev]
  show ?thesis
    by (intro conjI) (rule ev, rule r)
qed

section \<open>Properties of spans and annotation\<close>

lemma get_tag_set_tag_str:
  "get_tag (set_tag_str s k v) k' =
     (if k' = k then (case v of None \<Rightarrow> get_tag s k | Some x \<Rightarrow> Some x) else get_tag s k')"
  by (simp add: get_tag_def set_tag_str_def split: option.splits)

lemma set_tag_str_fields [simp]:
  "name (set_tag_str s k v) = name s"
  "span_type (set_tag_str s k v) = span_type s"
  "finished (set_tag_str s k v) = finished s"
  "resource (set_tag_str s k v) = resource s"
  by (simp_all add: set_tag_str_def split: option.splits)

lemma start_span_links_tag:
  assumes "k \<noteq> SESSION_ID" "k \<noteq> ML_APP" "k \<noteq> PARENT_ID_KEY"
  shows "get_tag (start_span_links h s sid app) k = get_tag s k"
  using assms by (simp add: start_span_links_def Let_def get_tag_set_tag_str)

lemma start_span_links_name: "name (start_span_links h s sid app) = name s"
  by (simp add: start_span_links_def Let_def)

text \<open>
  Claim C7. For every operation kind, \<open>_start_span\<close> stores the kind under the kind tag
  whatever the other arguments are; a call without a name is the call with the kind as
  name, and the span has the name the tracer gave it for that name; when no model name
  (no model provider) is supplied, the model name tag (the model provider tag) is as the
  tracer left it: \<open>_start_span\<close> does not write it. The constructors \<open>tool\<close>, \<open>task\<close>,
  \<open>agent\<close>, \<open>workflow\<close> and \<open>retrieval\<close> start their span without model arguments.
\<close>

theorem start_span_kind_name_model_tags:
  "get_tag (start_span h t k nm sid mn mp app) SPAN_KIND = Some k
   \<and> start_span h t k None sid mn mp app = start_span h t k (Some k) sid mn mp app
   \<and> name (start_span h t k nm sid mn mp app)
       = name (trace t (case nm of None \<Rightarrow> k | Some n \<Rightarrow> n) k SpanTypes_LLM)
   \<and> get_tag (start_span h t k nm sid None mp app) MODEL_NAME
       = get_tag (trace t (case nm of None \<Rightarrow> k | Some n \<Rightarrow> n) k SpanTypes_LLM) MODEL_NAME
   \<and> get_tag (start_span h t k nm sid mn None app) MODEL_PROVIDER
       = get_tag (trace t (case nm of None \<Rightarrow> k | Some n \<Rightarrow> n) k SpanTypes_LLM) MODEL_PROVIDER
   \<and> snd (tool h t e nm sid app) = start_span h t ''tool'' nm sid None None app
   \<and> snd (task h t e nm sid app) = start_span h t ''task'' nm sid None None app
   \<and> snd (agent h t e nm sid app) = start_span h t ''agent'' nm sid None None app
   \<and> snd (workflow h t e nm sid app) = start_span h t ''workflow'' nm sid None None app
   \<and> snd (retrieval h t e nm sid app) = start_span h t ''retrieval'' nm sid None None app"
  by (simp add: start_span_def Let_def start_span_links_tag start_span_links_name get_tag_set_tag_str
      tool_def task_def agent_def workflow_def retrieval_def)

lemma start_span_model_tags:
  "get_tag (start_span h t k nm sid (Some m) mp app) MODEL_NAME = Some m"
  "get_tag (start_span h t k nm sid mn (Some p) app) MODEL_PROVIDER = Some p"
  by (simp_all add: start_span_def Let_def start_span_links_tag get_tag_set_tag_str)

text \<open>
  Claim C9. \<open>llm\<close> and \<open>embedding\<close> replace an absent model name by \<open>custom\<close> and an
  absent model provider by \<open>custom\<close>, each on its own, before they call \<open>_start_span\<close>
  with the kind \<open>llm\<close> or \<open>embedding\<close>. The span they return carries both tags: the
  value supplied, or \<open>custom\<close> for an argument that was not supplied. The warning for a
  disabled service is all they log.
\<close>

theorem llm_embedding_default_custom:
  "get_tag (snd (llm h t e mn nm mp sid app)) MODEL_NAME
     = Some (case mn of None \<Rightarrow> ''custom'' | Some m \<Rightarrow> m)
   \<and> get_tag (snd (llm h t e mn nm mp sid app)) MODEL_PROVIDER
     = Some (case mp of None \<Rightarrow> ''custom'' | Some p \<Rightarrow> p)
   \<and> get_tag (snd (embedding h t e mn nm mp sid app)) MODEL_NAME
     = Some (case mn of None \<Rightarrow> ''custom'' | Some m \<Rightarrow> m)
   \<and> get_tag (snd (embedding h t e mn nm mp sid app)) MODEL_PROVIDER
     = Some (case mp of None \<Rightarrow> ''custom'' | Some p \<Rightarrow> p)
   \<and> snd (llm h t e mn nm mp sid app)
       = start_span h t ''llm'' nm sid
           (Some (case mn of None \<Rightarrow> ''custom'' | Some m \<Rightarrow> m))
           (Some (case mp of None \<Rightarrow> ''custom'' | Some p \<Rightarrow> p)) app
   \<and> snd (embedding h t e mn nm mp sid app)
       = start_span h t ''embedding'' nm sid
           (Some (case mn of None \<Rightarrow> ''custom'' | Some m \<Rightarrow> m))
           (Some (case mp of None \<Rightarrow> ''custom'' | Some p \<Rightarrow> p)) app
   \<and> fst (llm h t e mn nm mp sid app)
       = (if enabled e then [] else [W_span_start_while_disabled])
   \<and> fst (embedding h t e mn nm mp sid app)
       = (if enabled e then [] else [W_span_start_while_disabled])"
  by (cases mn; cases mp) (simp_all add: llm_def embedding_def Let_def start_span_model_tags)

lemma dict_update_map_of_rev:
  "map_of (dict_update d xs) = map_of d ++ map_of (rev xs)"
  unfolding dict_update_def
proof (induction xs arbitrary: d)
  case Nil
  show ?case by simp
next
  case (Cons x xs)
  have u: "map_of (AList.update (fst x) (snd x) d) = map_of d ++ map_of [x]"
    by (cases x) (simp add: update_conv')
  have r: "map_of (rev (x # xs)) = map_of [x] ++ map_of (rev xs)"
    by (simp only: rev.simps map_of_append)
  have "map_of (foldl (\<lambda>acc kv. AList.update (fst kv) (snd kv) acc) d (x # xs))
          = map_of (AList.update (fst x) (snd x) d) ++ map_of (rev xs)"
    by (simp only: foldl_Cons Cons.IH)
  also have "\<dots> = map_of d ++ (map_of [x] ++ map_of (rev xs))"
    by (simp only: u map_add_assoc)
  finally show ?case
    by (simp only: r)
qed

lemma map_of_rev_distinct:
  "distinct (map fst xs) \<Longrightarrow> map_of (rev xs) = map_of xs"
  by (subst map_of_inject_set) (simp_all add: rev_map[symmetric])

lemma dict_update_map_of:
  "distinct (map fst xs) \<Longrightarrow> map_of (dict_update d xs) = map_of d ++ map_of xs"
  by (simp add: dict_update_map_of_rev map_of_rev_distinct)

lemma tag_span_tags_fresh:
  assumes "get_tag s TAGS = None \<or> get_tag s TAGS = Some []" "new \<noteq> []"
  shows "tag_span_tags h s (PDict new) = ([], set_tag_str s TAGS (safe_json h (PDict new)))"
  using assms by (auto simp: tag_span_tags_def)

lemma tag_span_tags_existing:
  assumes "get_tag s TAGS = Some cur" "cur \<noteq> []" "json_loads h cur = Some (PDict old)" "new \<noteq> []"
  shows "tag_span_tags h s (PDict new)
           = ([], set_tag_str s TAGS (safe_json h (PDict (dict_update old new))))"
  using assms by (simp add: tag_span_tags_def)

text \<open>
  Claim C3. On a span that carries a tag dictionary, \<open>_tag_span_tags\<close> stores the
  serialisation of the old dictionary updated by the new one. As a mapping the update is
  the old mapping overridden by the new one: a key of the new dictionary has the new
  value, every other key keeps the old one; on dictionaries without a common key the
  order of the two does not matter. Tagging a span without tags with \<open>{a: v1}\<close> and
  then with \<open>{a: v2, b: v3}\<close> stores the serialisation of \<open>{a: v2, b: v3}\<close>. (A
  dictionary has no key twice; \<open>json_loads\<close> is assumed to read back what was stored.)
\<close>

theorem tag_span_tags_merge_right_biased:
  "(get_tag s TAGS = Some cur \<and> cur \<noteq> [] \<and> json_loads h cur = Some (PDict old) \<and> new \<noteq> [] \<longrightarrow>
      tag_span_tags h s (PDict new)
        = ([], set_tag_str s TAGS (safe_json h (PDict (dict_update old new)))))
   \<and> (distinct (map fst new) \<longrightarrow>
        map_of (dict_update old new) = map_of old ++ map_of new
        \<and> (\<forall>k v. map_of new k = Some v \<longrightarrow> map_of (dict_update old new) k = Some v)
        \<and> (\<forall>k. map_of new k = None \<longrightarrow> map_of (dict_update old new) k = map_of old k))
   \<and> (distinct (map fst old) \<and> distinct (map fst new) \<and> fst ` set old \<inter> fst ` set new = {} \<longrightarrow>
        map_of (dict_update old new) = map_of (dict_update new old))
   \<and> (get_tag s TAGS = None \<and> safe_json h (PDict [(''a'', v1)]) = Some c \<and> c \<noteq> []
        \<and> json_loads h c = Some (PDict [(''a'', v1)]) \<longrightarrow>
        snd (tag_span_tags h (snd (tag_span_tags h s (PDict [(''a'', v1)])))
               (PDict [(''a'', v2), (''b'', v3)]))
          = set_tag_str (set_tag_str s TAGS (Some c)) TAGS
              (safe_json h (PDict [(''a'', v2), (''b'', v3)])))"
proof (intro conjI impI)
  assume "get_tag s TAGS = Some cur \<and> cur \<noteq> [] \<and> json_loads h cur = Some (PDict old) \<and> new \<noteq> []"
  then show "tag_span_tags h s (PDict new)
        = ([], set_tag_str s TAGS (safe_json h (PDict (dict_update old new))))"
    by (simp add: tag_span_tags_existing)
next
  assume d: "distinct (map fst new)"
  show m: "map_of (dict_update old new) = map_of old ++ map_of new"
    by (rule dict_update_map_of[OF d])
  show "\<forall>k v. map_of new k = Some v \<longrightarrow> map_of (dict_update old new) k = Some v"
    by (simp add: m map_add_def)
  show "\<forall>k. map_of new k = None \<longrightarrow> map_of (dict_update old new) k = map_of old k"
    by (simp add: m map_add_def)
next
  assume a: "distinct (map fst old) \<and> distinct (map fst new) \<and> fst ` set old \<inter> fst ` set new = {}"
  then have "dom (map_of old) \<inter> dom (map_of new) = {}"
    by (simp add: dom_map_of_conv_image_fst)
  then have "map_of old ++ map_of new = map_of new ++ map_of old"
    by (rule map_add_comm)
  with a show "map_of (dict_update old new) = map_of (dict_update new old)"
    by (simp add: dict_update_map_of)
next
  assume a: "get_tag s TAGS = None \<and> safe_json h (PDict [(''a'', v1)]) = Some c \<and> c \<noteq> []
        \<and> json_loads h c = Some (PDict [(''a'', v1)])"
  then have 1: "tag_span_tags h s (PDict [(''a'', v1)]) = ([], set_tag_str s TAGS (Some c))"
    by (simp add: tag_span_tags_fresh)
  from a have 2: "get_tag (set_tag_str s TAGS (Some c)) TAGS = Some c"
    by (simp add: get_tag_set_tag_str)
  have 3: "dict_update [(''a'', v1)] [(''a'', v2), (''b'', v3)] = [(''a'', v2), (''b'', v3)]"
    by (simp add: dict_update_def)
  from a show "snd (tag_span_tags h (snd (tag_span_tags h s (PDict [(''a'', v1)])))
               (PDict [(''a'', v2), (''b'', v3)]))
          = set_tag_str (set_tag_str s TAGS (Some c)) TAGS
              (safe_json h (PDict [(''a'', v2), (''b'', v3)]))"
    unfolding 1 by (simp add: tag_span_tags_existing[OF 2] 3)
qed

lemma tag_span_tags_fields:
  "span_type (snd (tag_span_tags h s tg)) = span_type s"
  "finished (snd (tag_span_tags h s tg)) = finished s"
  by (simp_all add: tag_span_tags_def split: option.splits pyval.splits)

lemma tag_prompt_fields:
  "span_type (snd (tag_prompt h s p)) = span_type s"
  "finished (snd (tag_prompt h s p)) = finished s"
  "get_tag (snd (tag_prompt h s p)) TAGS = get_tag s TAGS"
  by (simp_all add: tag_prompt_def get_tag_set_tag_str split: option.splits)

lemma get_tag_name_update [simp]: "get_tag (s\<lparr>name := n\<rparr>) k = get_tag s k"
  by (simp add: get_tag_def)

lemma annotate_span_kwargs:
  "span_type (snd (annotate_span h s (annotation_kwargs (tg, pr, nm)))) = span_type s"
  "finished (snd (annotate_span h s (annotation_kwargs (tg, pr, nm)))) = finished s"
  "get_tag (snd (annotate_span h s (annotation_kwargs (tg, pr, nm)))) TAGS
     = (if tg \<noteq> PNone then get_tag (snd (tag_span_tags h s tg)) TAGS else get_tag s TAGS)"
  by (simp_all add: annotate_span_def annotation_kwargs_def Let_def split_beta
      tag_span_tags_fields tag_prompt_fields split: option.splits)

lemma annotate_live:
  assumes "span_type s = Some SpanTypes_LLM" "\<not> finished s"
  shows "annotate h t (Some s) a = (fst (annotate_span h s a), Some (snd (annotate_span h s a)))"
  using assms by (simp add: annotate_def split_beta)

lemma loop_is_apply_matching:
  "do_annotations_loop h t cid anns acc = apply_matching h t cid anns acc"
proof (induction anns arbitrary: acc)
  case Nil
  show ?case by (simp add: apply_matching_def)
next
  case (Cons x xs)
  obtain aid c kw where x: "x = (aid, c, kw)" by (cases x)
  obtain lg s where acc: "acc = (lg, s)" by (cases acc)
  show ?case
  proof (cases "cid = Some c")
    case False
    with Cons.IH[of acc] show ?thesis
      by (simp add: x acc apply_matching_def)
  next
    case True
    obtain lg' so where an: "annotate h t (Some s) (annotation_kwargs kw) = (lg', so)"
      by (cases "annotate h t (Some s) (annotation_kwargs kw)")
    show ?thesis
      using True an Cons.IH
      by (cases so) (simp_all add: x acc apply_matching_def apply_annotation_def)
  qed
qed


lemma do_annotations_two:
  assumes ty: "span_type s = Some SpanTypes_LLM" and nf: "\<not> finished s"
      and ctx: "current_trace_context t = Some c"
      and bg: "get_baggage_item c ANNOTATIONS_CONTEXT_ID = Some cid"
      and fresh: "get_tag s TAGS = None"
      and t1: "t1 \<noteq> []" and t2: "t2 \<noteq> []"
      and j1: "safe_json h (PDict t1) = Some c1" "c1 \<noteq> []" "json_loads h c1 = Some (PDict t1)"
      and j2: "safe_json h (PDict (dict_update t1 t2)) = Some c2"
  shows "\<exists>lg s'. do_annotations h t [(i1, cid, (PDict t1, p1, n1)), (i2, cid, (PDict t2, p2, n2))] s
                   = Inr ([Acquire] @ map Log lg @ [Release], s')
                 \<and> get_tag s' TAGS = Some c2"
proof -
  let ?a1 = "annotate_span h s (annotation_kwargs (PDict t1, p1, n1))"
  let ?s1 = "snd ?a1"
  let ?a2 = "annotate_span h ?s1 (annotation_kwargs (PDict t2, p2, n2))"
  let ?s2 = "snd ?a2"
  have ty1: "span_type ?s1 = Some SpanTypes_LLM" and nf1: "\<not> finished ?s1"
    using ty nf by (simp_all add: annotate_span_kwargs)
  have "get_tag ?s1 TAGS = get_tag (snd (tag_span_tags h s (PDict t1))) TAGS"
    by (simp add: annotate_span_kwargs)
  also have "\<dots> = Some c1"
    using fresh t1 j1(1) by (simp add: tag_span_tags_fresh get_tag_set_tag_str)
  finally have g1: "get_tag ?s1 TAGS = Some c1" .
  have "get_tag ?s2 TAGS = get_tag (snd (tag_span_tags h ?s1 (PDict t2))) TAGS"
    by (simp add: annotate_span_kwargs)
  also have "\<dots> = Some c2"
    using j2 by (simp add: tag_span_tags_existing[OF g1 j1(2) j1(3) t2] get_tag_set_tag_str)
  finally have g2: "get_tag ?s2 TAGS = Some c2" .
  have "do_annotations h t [(i1, cid, (PDict t1, p1, n1)), (i2, cid, (PDict t2, p2, n2))] s
          = Inr ([Acquire] @ map Log (fst ?a1 @ fst ?a2) @ [Release], ?s2)"
    using ty ctx bg
    by (simp add: do_annotations_def Let_def annotate_live[OF ty nf] annotate_live[OF ty1 nf1])
  with g2 show ?thesis by blast
qed

text \<open>
  Claim C4. The span-start hook returns at once, without taking the lock and without
  logging, for a span that is not of the type of this module. For a span of that type it
  takes the lock and applies every entry whose ambient id is the one of the active
  context, in registration order. With two entries under the active ambient id, on a new
  span without tags, the tags stored are the serialisation of the first dictionary
  updated by the second: both are applied and the later entry wins on a common key.
\<close>

theorem do_annotations_applies_matching_in_order:
  "(span_type s \<noteq> Some SpanTypes_LLM \<longrightarrow> do_annotations h t anns s = Inr ([], s))
   \<and> (span_type s = Some SpanTypes_LLM \<and> current_trace_context t = Some c \<longrightarrow>
        do_annotations h t anns s
          = Inr ([Acquire]
                   @ map Log (fst (apply_matching h t (get_baggage_item c ANNOTATIONS_CONTEXT_ID)
                                     anns ([], s)))
                   @ [Release],
                 snd (apply_matching h t (get_baggage_item c ANNOTATIONS_CONTEXT_ID) anns ([], s))))
   \<and> (span_type s = Some SpanTypes_LLM \<and> \<not> finished s \<and> current_trace_context t = Some c
        \<and> get_baggage_item c ANNOTATIONS_CONTEXT_ID = Some cid \<and> get_tag s TAGS = None
        \<and> t1 \<noteq> [] \<and> t2 \<noteq> [] \<and> distinct (map fst t2)
        \<and> safe_json h (PDict t1) = Some c1 \<and> c1 \<noteq> [] \<and> json_loads h c1 = Some (PDict t1)
        \<and> safe_json h (PDict (dict_update t1 t2)) = Some c2 \<longrightarrow>
        (\<exists>lg s'. do_annotations h t
                    [(i1, cid, (PDict t1, p1, n1)), (i2, cid, (PDict t2, p2, n2))] s
                    = Inr ([Acquire] @ map Log lg @ [Release], s')
                  \<and> get_tag s' TAGS = Some c2)
        \<and> map_of (dict_update t1 t2) = map_of t1 ++ map_of t2)"
proof (intro conjI impI)
  assume "span_type s \<noteq> Some SpanTypes_LLM"
  then show "do_annotations h t anns s = Inr ([], s)"
    by (simp add: do_annotations_def)
next
  assume "span_type s = Some SpanTypes_LLM \<and> current_trace_context t = Some c"
  then show "do_annotations h t anns s
          = Inr ([Acquire]
                   @ map Log (fst (apply_matching h t (get_baggage_item c ANNOTATIONS_CONTEXT_ID)
                                     anns ([], s)))
                   @ [Release],
                 snd (apply_matching h t (get_baggage_item c ANNOTATIONS_CONTEXT_ID) anns ([], s)))"
    by (simp add: do_annotations_def Let_def split_beta loop_is_apply_matching)
next
  assume a: "span_type s = Some SpanTypes_LLM \<and> \<not> finished s \<and> current_trace_context t = Some c
        \<and> get_baggage_item c ANNOTATIONS_CONTEXT_ID = Some cid \<and> get_tag s TAGS = None
        \<and> t1 \<noteq> [] \<and> t2 \<noteq> [] \<and> distinct (map fst t2)
        \<and> safe_json h (PDict t1) = Some c1 \<and> c1 \<noteq> [] \<and> json_loads h c1 = Some (PDict t1)
        \<and> safe_json h (PDict (dict_update t1 t2)) = Some c2"
  then have f: "span_type s = Some SpanTypes_LLM" "\<not> finished s" "current_trace_context t = Some c"
    "get_baggage_item c ANNOTATIONS_CONTEXT_ID = Some cid" "get_tag s TAGS = None"
    "t1 \<noteq> []" "t2 \<noteq> []" "safe_json h (PDict t1) = Some c1" "c1 \<noteq> []"
    "json_loads h c1 = Some (PDict t1)" "safe_json h (PDict (dict_update t1 t2)) = Some c2"
    by simp_all
  show "\<exists>lg s'. do_annotations h t
                    [(i1, cid, (PDict t1, p1, n1)), (i2, cid, (PDict t2, p2, n2))] s
                    = Inr ([Acquire] @ map Log lg @ [Release], s')
                  \<and> get_tag s' TAGS = Some c2"
    by (rule do_annotations_two[OF f])
  from a show "map_of (dict_update t1 t2) = map_of t1 ++ map_of t2"
    by (simp add: dict_update_map_of)
qed

lemma find_annotation_Some:
  "find_annotation aid i anns = Some j \<Longrightarrow>
     \<exists>pre e post. anns = pre @ e # post \<and> fst e = aid \<and> aid \<notin> fst ` set pre \<and> j = i + length pre"
proof (induction anns arbitrary: i)
  case Nil
  then show ?case by simp
next
  case (Cons x xs)
  obtain key cid kw where x: "x = (key, cid, kw)" by (cases x)
  show ?case
  proof (cases "key = aid")
    case True
    with Cons.prems x have "j = i" by simp
    with True x have "x # xs = [] @ x # xs \<and> fst x = aid \<and> aid \<notin> fst ` set []
        \<and> j = i + length ([]::annotation_entry list)"
      by simp
    then show ?thesis by blast
  next
    case False
    with Cons.prems x have "find_annotation aid (Suc i) xs = Some j" by simp
    from Cons.IH[OF this] obtain pre e post where
      "xs = pre @ e # post" "fst e = aid" "aid \<notin> fst ` set pre" "j = Suc i + length pre"
      by blast
    with False x have "x # xs = (x # pre) @ e # post \<and> fst e = aid \<and> aid \<notin> fst ` set (x # pre)
        \<and> j = i + length (x # pre)"
      by auto
    then show ?thesis by blast
  qed
qed

lemma find_annotation_None:
  "find_annotation aid i anns = None \<longleftrightarrow> aid \<notin> fst ` set anns"
proof (induction anns arbitrary: i)
  case Nil
  then show ?case by simp
next
  case (Cons x xs)
  obtain key cid kw where x: "x = (key, cid, kw)" by (cases x)
  show ?case
    using Cons.IH[of "Suc i"] by (simp add: x)
qed

lemma pop_middle: "pop (length pre) (pre @ e # post) = pre @ post"
  by (simp add: pop_def)

lemma filter_distinct_middle:
  assumes "distinct (map fst (pre @ e # post))"
  shows "filter (\<lambda>x. fst x \<noteq> fst e) (pre @ e # post) = pre @ post"
proof -
  from assms have "\<forall>x \<in> set pre \<union> set post. fst x \<noteq> fst e"
    by (auto simp: image_iff)
  then show ?thesis
    by (simp add: filter_id_conv)
qed

text \<open>
  Claim C8. \<open>deregister_annotation\<close> takes the lock and removes the first entry with the
  annotation id, whatever the ambient ids of the entries are; the entries before and
  after it stay, in their order. When annotation ids are distinct, this is the removal of
  the one entry with that id. When no entry has the id, a debug message is logged and
  the registry is unchanged.
\<close>

theorem deregister_annotation_removes_one:
  "(aid \<in> fst ` set anns \<longrightarrow>
      (\<exists>pre e post. anns = pre @ e # post \<and> fst e = aid \<and> aid \<notin> fst ` set pre
         \<and> deregister_annotation aid anns = ([Acquire, Release], pre @ post)))
   \<and> (aid \<notin> fst ` set anns \<longrightarrow>
        deregister_annotation aid anns = ([Acquire, Log D_failed_pop_annotation, Release], anns))
   \<and> (distinct (map fst anns) \<longrightarrow>
        snd (deregister_annotation aid anns) = filter (\<lambda>e. fst e \<noteq> aid) anns)"
proof (intro conjI impI)
  assume m: "aid \<in> fst ` set anns"
  then obtain j where j: "find_annotation aid 0 anns = Some j"
    using find_annotation_None[of aid 0 anns] by (cases "find_annotation aid 0 anns") auto
  from find_annotation_Some[OF j] obtain pre e post where
    d: "anns = pre @ e # post" "fst e = aid" "aid \<notin> fst ` set pre" "j = length pre"
    by auto
  with j have "deregister_annotation aid anns = ([Acquire, Release], pre @ post)"
    by (simp add: deregister_annotation_def pop_middle)
  with d show "\<exists>pre e post. anns = pre @ e # post \<and> fst e = aid \<and> aid \<notin> fst ` set pre
         \<and> deregister_annotation aid anns = ([Acquire, Release], pre @ post)"
    by blast
next
  assume "aid \<notin> fst ` set anns"
  then have "find_annotation aid 0 anns = None"
    by (simp add: find_annotation_None)
  then show "deregister_annotation aid anns = ([Acquire, Log D_failed_pop_annotation, Release], anns)"
    by (simp add: deregister_annotation_def)
next
  assume dist: "distinct (map fst anns)"
  show "snd (deregister_annotation aid anns) = filter (\<lambda>e. fst e \<noteq> aid) anns"
  proof (cases "find_annotation aid 0 anns")
    case None
    then have "aid \<notin> fst ` set anns" by (simp add: find_annotation_None)
    then have "filter (\<lambda>e. fst e \<noteq> aid) anns = anns"
      by (auto simp: filter_id_conv)
    with None show ?thesis by (simp add: deregister_annotation_def)
  next
    case (Some j)
    from find_annotation_Some[OF Some] obtain pre e post where
      d: "anns = pre @ e # post" "fst e = aid" "j = length pre"
      by auto
    from dist d have "filter (\<lambda>x. fst x \<noteq> fst e) (pre @ e # post) = pre @ post"
      by (intro filter_distinct_middle) simp
    with Some d show ?thesis
      by (simp add: deregister_annotation_def pop_middle)
  qed
qed

text \<open>
  Claim C2. On a finished span \<open>annotate\<close> writes nothing, whatever its other arguments
  are: the span is returned as it was (tags and name included) and exactly one warning
  is logged, that the span is finished or, for a span of another type, that the span is
  not of this module. The same holds when the span is the active one and none is given.
\<close>

theorem annotate_finished_noop:
  assumes "finished s"
  shows "(annotate h t (Some s) a = ([W_not_llmobs_span], Some s)
          \<or> annotate h t (Some s) a = ([W_finished_span], Some s))
       \<and> (current_span t = Some s \<longrightarrow> annotate h t None a = annotate h t (Some s) a)"
  using assms by (simp add: annotate_def)

text \<open>
  Claim C6, as amended. When the service is enabled, \<open>activate_distributed_headers\<close>
  extracts a context from the headers; when the trace id or the span id is absent it
  logs a warning and the active context stays as it was; when both are present the
  extracted context is activated, with a warning when the logical parent id is absent.
\<close>

theorem activate_distributed_headers_enabled:
  assumes "enabled e"
  shows "(ctx_trace_id (extract hdrs) = None \<or> ctx_span_id (extract hdrs) = None \<longrightarrow>
           activate_distributed_headers e extract active hdrs = ([W_extract_ids_failed], active))
       \<and> (ctx_trace_id (extract hdrs) \<noteq> None \<and> ctx_span_id (extract hdrs) \<noteq> None
            \<and> ctx_meta (extract hdrs) PROPAGATED_PARENT_ID_KEY = None \<longrightarrow>
           activate_distributed_headers e extract active hdrs
             = ([W_extract_parent_id_failed], Some (extract hdrs)))
       \<and> (ctx_trace_id (extract hdrs) \<noteq> None \<and> ctx_span_id (extract hdrs) \<noteq> None
            \<and> ctx_meta (extract hdrs) PROPAGATED_PARENT_ID_KEY \<noteq> None \<longrightarrow>
           activate_distributed_headers e extract active hdrs = ([], Some (extract hdrs)))"
  using assms by (simp add: activate_distributed_headers_def Let_def)

section \<open>Examples of spans and annotation\<close>

theorem annotate_finished_noop_witness:
  "finished (example_span\<lparr>finished := True\<rparr>)
   \<and> (annotate example_helpers example_tracer (Some (example_span\<lparr>finished := True\<rparr>))
         example_annotation
        = ([W_not_llmobs_span], Some (example_span\<lparr>finished := True\<rparr>))
      \<or> annotate example_helpers example_tracer (Some (example_span\<lparr>finished := True\<rparr>))
         example_annotation
        = ([W_finished_span], Some (example_span\<lparr>finished := True\<rparr>)))
   \<and> annotate example_helpers
        (example_tracer\<lparr>current_span := Some (example_span\<lparr>finished := True\<rparr>)\<rparr>) None
        example_annotation
      = annotate example_helpers
        (example_tracer\<lparr>current_span := Some (example_span\<lparr>finished := True\<rparr>)\<rparr>)
        (Some (example_span\<lparr>finished := True\<rparr>)) example_annotation"
proof -
  have f: "finished (example_span\<lparr>finished := True\<rparr>)"
    by simp
  have c: "current_span (example_tracer\<lparr>current_span := Some (example_span\<lparr>finished := True\<rparr>)\<rparr>)
             = Some (example_span\<lparr>finished := True\<rparr>)"
    by simp
  show ?thesis
    by (intro conjI)
       (rule f, rule annotate_finished_noop[OF f, THEN conjunct1],
        rule annotate_finished_noop[OF f, THEN conjunct2, THEN mp, OF c])
qed

theorem tag_span_tags_merge_right_biased_witness:
  "snd (tag_span_tags example_helpers
          (snd (tag_span_tags example_helpers example_span (PDict [(''a'', PInt 1)])))
          (PDict [(''a'', PInt 2), (''b'', PInt 3)]))
     = set_tag_str (set_tag_str example_span TAGS (Some ''{a: 1}'')) TAGS (Some ''{a: 2, b: 3}'')
   \<and> map_of (dict_update [(''a'', PInt 1)] [(''a'', PInt 2), (''b'', PInt 3)]) ''a'' = Some (PInt 2)
   \<and> map_of (dict_update [(''a'', PInt 1)] [(''b'', PInt 3)])
       = map_of (dict_update [(''b'', PInt 3)] [(''a'', PInt 1)])"
proof -
  have h: "get_tag example_span TAGS = None
           \<and> safe_json example_helpers (PDict [(''a'', PInt 1)]) = Some ''{a: 1}'' \<and> ''{a: 1}'' \<noteq> []
           \<and> json_loads example_helpers ''{a: 1}'' = Some (PDict [(''a'', PInt 1)])"
    by (simp add: example_helpers_def example_span_def get_tag_def)
  have sj: "safe_json example_helpers (PDict [(''a'', PInt 2), (''b'', PInt 3)]) = Some ''{a: 2, b: 3}''"
    by (simp add: example_helpers_def)
  have d: "distinct (map fst [(''a'', PInt 2), (''b'', PInt 3)])"
    by simp
  have m: "map_of [(''a'', PInt 2), (''b'', PInt 3)] ''a'' = Some (PInt 2)"
    by simp
  have dj: "distinct (map fst [(''a'', PInt 1)]) \<and> distinct (map fst [(''b'', PInt 3)])
            \<and> fst ` set [(''a'', PInt 1)] \<inter> fst ` set [(''b'', PInt 3)] = {}"
    by simp
  note t = tag_span_tags_merge_right_biased
  show ?thesis
  proof (intro conjI)
    show "snd (tag_span_tags example_helpers
          (snd (tag_span_tags example_helpers example_span (PDict [(''a'', PInt 1)])))
          (PDict [(''a'', PInt 2), (''b'', PInt 3)]))
     = set_tag_str (set_tag_str example_span TAGS (Some ''{a: 1}'')) TAGS (Some ''{a: 2, b: 3}'')"
      using t[THEN conjunct2, THEN conjunct2, THEN conjunct2, THEN mp, OF h,
              of "PInt 2" "PInt 3"]
      by (simp only: sj)
    show "map_of (dict_update [(''a'', PInt 1)] [(''a'', PInt 2), (''b'', PInt 3)]) ''a'' = Some (PInt 2)"
      by (rule t[THEN conjunct2, THEN conjunct1, THEN mp, OF d, THEN conjunct2, THEN conjunct1,
                 rule_format, OF m])
    show "map_of (dict_update [(''a'', PInt 1)] [(''b'', PInt 3)])
       = map_of (dict_update [(''b'', PInt 3)] [(''a'', PInt 1)])"
      by (rule t[THEN conjunct2, THEN conjunct2, THEN conjunct1, THEN mp, OF dj])
  qed
qed

theorem do_annotations_applies_matching_in_order_witness:
  "fst (snd (register_annotation 9 (PDict [(''a'', PInt 2), (''b'', PInt 3)], PNone, None)
               (fst (snd (register_annotation 5 (PDict [(''a'', PInt 1)], PNone, None) [] None)))
               (Some (snd (snd (register_annotation 5 (PDict [(''a'', PInt 1)], PNone, None) [] None))))))
     = example_annotations
   \<and> (\<exists>lg s'. do_annotations example_helpers example_tracer example_annotations example_span
                 = Inr ([Acquire] @ map Log lg @ [Release], s')
               \<and> get_tag s' TAGS = Some ''{a: 2, b: 3}'')
   \<and> do_annotations example_helpers example_tracer example_annotations
        (example_span\<lparr>span_type := Some ''web''\<rparr>)
      = Inr ([], example_span\<lparr>span_type := Some ''web''\<rparr>)"
proof -
  have r: "fst (snd (register_annotation 9 (PDict [(''a'', PInt 2), (''b'', PInt 3)], PNone, None)
               (fst (snd (register_annotation 5 (PDict [(''a'', PInt 1)], PNone, None) [] None)))
               (Some (snd (snd (register_annotation 5 (PDict [(''a'', PInt 1)], PNone, None) [] None))))))
     = example_annotations"
    by (simp add: register_annotation_def get_annotations_context_id_def set_baggage_item_def
        get_baggage_item_def example_annotations_def)
  have h: "span_type example_span = Some SpanTypes_LLM \<and> \<not> finished example_span
        \<and> current_trace_context example_tracer = Some example_context
        \<and> get_baggage_item example_context ANNOTATIONS_CONTEXT_ID = Some 5
        \<and> get_tag example_span TAGS = None
        \<and> [(''a'', PInt 1)] \<noteq> [] \<and> [(''a'', PInt 2), (''b'', PInt 3)] \<noteq> []
        \<and> distinct (map fst [(''a'', PInt 2), (''b'', PInt 3)])
        \<and> safe_json example_helpers (PDict [(''a'', PInt 1)]) = Some ''{a: 1}'' \<and> ''{a: 1}'' \<noteq> []
        \<and> json_loads example_helpers ''{a: 1}'' = Some (PDict [(''a'', PInt 1)])
        \<and> safe_json example_helpers
             (PDict (dict_update [(''a'', PInt 1)] [(''a'', PInt 2), (''b'', PInt 3)]))
            = Some ''{a: 2, b: 3}''"
    by (simp add: example_span_def example_tracer_def example_context_def get_baggage_item_def
        get_tag_def example_helpers_def dict_update_def)
  have w: "span_type (example_span\<lparr>span_type := Some ''web''\<rparr>) \<noteq> Some SpanTypes_LLM"
    by (simp add: SpanTypes_LLM_def)
  note t = do_annotations_applies_matching_in_order
  show ?thesis
  proof (intro conjI)
    show "fst (snd (register_annotation 9 (PDict [(''a'', PInt 2), (''b'', PInt 3)], PNone, None)
               (fst (snd (register_annotation 5 (PDict [(''a'', PInt 1)], PNone, None) [] None)))
               (Some (snd (snd (register_annotation 5 (PDict [(''a'', PInt 1)], PNone, None) [] None))))))
     = example_annotations"
      by (rule r)
    show "\<exists>lg s'. do_annotations example_helpers example_tracer example_annotations example_span
                 = Inr ([Acquire] @ map Log lg @ [Release], s')
               \<and> get_tag s' TAGS = Some ''{a: 2, b: 3}''"
      unfolding example_annotations_def
      by (rule t[THEN conjunct2, THEN conjunct2, THEN mp, OF h, THEN conjunct1])
    show "do_annotations example_helpers example_tracer example_annotations
        (example_span\<lparr>span_type := Some ''web''\<rparr>)
      = Inr ([], example_span\<lparr>span_type := Some ''web''\<rparr>)"
      by (rule t[THEN conjunct1, THEN mp, OF w])
  qed
qed

text \<open>
  Claim C6 as the specification states it fails when the service is not enabled: the
  headers carry both physical ids, yet nothing is extracted and nothing is activated.
\<close>

theorem activate_distributed_headers_disabled_counterexample:
  "ctx_trace_id (example_extract example_headers) = Some 1
   \<and> ctx_span_id (example_extract example_headers) = Some 1
   \<and> ctx_meta (example_extract example_headers) PROPAGATED_PARENT_ID_KEY = None
   \<and> activate_distributed_headers (example_env\<lparr>enabled := False\<rparr>) example_extract None
        example_headers
      = ([W_activate_not_enabled], None)"
  by (simp add: example_extract_def example_headers_def activate_distributed_headers_def)

theorem activate_distributed_headers_enabled_witness:
  "enabled example_env
   \<and> activate_distributed_headers example_env example_extract None example_headers
       = ([W_extract_parent_id_failed], Some (example_extract example_headers))
   \<and> activate_distributed_headers example_env example_extract None Map.empty
       = ([W_extract_ids_failed], None)"
proof -
  have e: "enabled example_env"
    by (simp add: example_env_def)
  have p: "ctx_trace_id (example_extract example_headers) \<noteq> None
           \<and> ctx_span_id (example_extract example_headers) \<noteq> None
           \<and> ctx_meta (example_extract example_headers) PROPAGATED_PARENT_ID_KEY = None"
    by (simp add: example_extract_def example_headers_def)
  have a: "ctx_trace_id (example_extract Map.empty) = None
           \<or> ctx_span_id (example_extract Map.empty) = None"
    by (simp add: example_extract_def)
  note t1 = activate_distributed_headers_enabled
               [of example_env example_extract example_headers None, OF e]
  note t2 = activate_distributed_headers_enabled
               [of example_env example_extract Map.empty None, OF e]
  show ?thesis
    by (intro conjI)
       (rule e, rule t1[THEN conjunct2, THEN conjunct1, THEN mp, OF p],
        rule t2[THEN conjunct1, THEN mp, OF a])
qed

theorem start_span_kind_name_model_tags_witness:
  "get_tag (start_span example_helpers example_tracer ''tool'' None None None None None) SPAN_KIND
     = Some ''tool''
   \<and> name (start_span example_helpers example_tracer ''tool'' None None None None None) = ''tool''
   \<and> get_tag (start_span example_helpers example_tracer ''tool'' None None None None None) MODEL_NAME
     = None
   \<and> get_tag (start_span example_helpers example_tracer ''tool'' None None None None None)
       MODEL_PROVIDER = None"
proof -
  note t = start_span_kind_name_model_tags[of example_helpers example_tracer "''tool''"
             None None None None None example_env]
  have tr: "trace example_tracer ''tool'' ''tool'' SpanTypes_LLM
              = \<lparr>name = ''tool'', resource = ''tool'', span_type = Some SpanTypes_LLM,
                 finished = False, meta = Map.empty\<rparr>"
    by (simp add: example_tracer_def)
  have k: "get_tag (start_span example_helpers example_tracer ''tool'' None None None None None)
             SPAN_KIND = Some ''tool''"
    by (rule t[THEN conjunct1])
  have "name (start_span example_helpers example_tracer ''tool'' None None None None None)
          = name (trace example_tracer (case None of None \<Rightarrow> ''tool'' | Some n \<Rightarrow> n) ''tool''
                    SpanTypes_LLM)"
    by (rule t[THEN conjunct2, THEN conjunct2, THEN conjunct1])
  then have n: "name (start_span example_helpers example_tracer ''tool'' None None None None None)
                  = ''tool''"
    by (simp add: tr)
  have "get_tag (start_span example_helpers example_tracer ''tool'' None None None None None)
          MODEL_NAME
          = get_tag (trace example_tracer (case None of None \<Rightarrow> ''tool'' | Some n \<Rightarrow> n) ''tool''
                       SpanTypes_LLM) MODEL_NAME"
    by (rule t[THEN conjunct2, THEN conjunct2, THEN conjunct2, THEN conjunct1])
  then have m: "get_tag (start_span example_helpers example_tracer ''tool'' None None None None None)
                  MODEL_NAME = None"
    by (simp add: tr get_tag_def)
  have "get_tag (start_span example_helpers example_tracer ''tool'' None None None None None)
          MODEL_PROVIDER
          = get_tag (trace example_tracer (case None of None \<Rightarrow> ''tool'' | Some n \<Rightarrow> n) ''tool''
                       SpanTypes_LLM) MODEL_PROVIDER"
    by (rule t[THEN conjunct2, THEN conjunct2, THEN conjunct2, THEN conjunct2, THEN conjunct1])
  then have p: "get_tag (start_span example_helpers example_tracer ''tool'' None None None None None)
                  MODEL_PROVIDER = None"
    by (simp add: tr get_tag_def)
  show ?thesis
    by (intro conjI) (rule k, rule n, rule m, rule p)
qed

theorem deregister_annotation_removes_one_witness:
  "5 \<in> fst ` set example_annotations
   \<and> snd (deregister_annotation 5 example_annotations)
       = [(9, 5, (PDict [(''a'', PInt 2), (''b'', PInt 3)], PNone, None))]
   \<and> deregister_annotation 7 example_annotations
       = ([Acquire, Log D_failed_pop_annotation, Release], example_annotations)"
proof -
  have d: "distinct (map fst example_annotations)"
    by (simp add: example_annotations_def)
  have n: "7 \<notin> fst ` set example_annotations"
    by (simp add: example_annotations_def)
  have m: "5 \<in> fst ` set example_annotations"
    by (simp add: example_annotations_def)
  note t = deregister_annotation_removes_one
  have "snd (deregister_annotation 5 example_annotations)
          = filter (\<lambda>e. fst e \<noteq> 5) example_annotations"
    by (rule t[THEN conjunct2, THEN conjunct2, THEN mp, OF d])
  then have s: "snd (deregister_annotation 5 example_annotations)
       = [(9, 5, (PDict [(''a'', PInt 2), (''b'', PInt 3)], PNone, None))]"
    by (simp add: example_annotations_def)
  show ?thesis
    by (intro conjI) (rule m, rule s, rule t[THEN conjunct2, THEN conjunct1, THEN mp, OF n])
qed

theorem llm_embedding_default_custom_witness:
  "get_tag (snd (llm example_helpers example_tracer example_env None None None None None)) MODEL_NAME
     = Some ''custom''
   \<and> get_tag (snd (llm example_helpers example_tracer example_env None None None None None))
       MODEL_PROVIDER = Some ''custom''
   \<and> get_tag (snd (llm example_helpers example_tracer example_env (Some ''gpt'') None None None None))
       MODEL_NAME = Some ''gpt''
   \<and> get_tag (snd (llm example_helpers example_tracer example_env (Some ''gpt'') None None None None))
       MODEL_PROVIDER = Some ''custom''
   \<and> get_tag (snd (embedding example_helpers example_tracer example_env None None (Some ''openai'')
                       None None))
       MODEL_NAME = Some ''custom''
   \<and> get_tag (snd (embedding example_helpers example_tracer example_env None None (Some ''openai'')
                       None None))
       MODEL_PROVIDER = Some ''openai''"
proof -
  note a = llm_embedding_default_custom[of example_helpers example_tracer example_env
             None None None None None]
  note b = llm_embedding_default_custom[of example_helpers example_tracer example_env
             "Some ''gpt''" None None None None]
  note c = llm_embedding_default_custom[of example_helpers example_tracer example_env
             None None "Some ''openai''" None None]
  have 1: "get_tag (snd (llm example_helpers example_tracer example_env None None None None None))
             MODEL_NAME = Some ''custom''"
    using a[THEN conjunct1] by simp
  have 2: "get_tag (snd (llm example_helpers example_tracer example_env None None None None None))
             MODEL_PROVIDER = Some ''custom''"
    using a[THEN conjunct2, THEN conjunct1] by simp
  have 3: "get_tag (snd (llm example_helpers example_tracer example_env (Some ''gpt'') None None
                          None None))
             MODEL_NAME = Some ''gpt''"
    using b[THEN conjunct1] by simp
  have 4: "get_tag (snd (llm example_helpers example_tracer example_env (Some ''gpt'') None None
                          None None))
             MODEL_PROVIDER = Some ''custom''"
    using b[THEN conjunct2, THEN conjunct1] by simp
  have 5: "get_tag (snd (embedding example_helpers example_tracer example_env None None
                          (Some ''openai'') None None))
             MODEL_NAME = Some ''custom''"
    using c[THEN conjunct2, THEN conjunct2, THEN conjunct1] by simp
  have 6: "get_tag (snd (embedding example_helpers example_tracer example_env None None
                          (Some ''openai'') None None))
             MODEL_PROVIDER = Some ''openai''"
    using c[THEN conjunct2, THEN conjunct2, THEN conjunct2, THEN conjunct1] by simp
  show ?thesis
    by (intro conjI) (rule 1, rule 2, rule 3, rule 4, rule 5, rule 6)
qed

end
